theory Spec2Isabelle
  imports Complex_Main "HOL-Library.Sublist"
begin

section \<open>Values and errors\<close>

text \<open>
  A decoded JSON document is a \<open>json\<close> value.  The exception classes of
  \<^verbatim>\<open>errors.py\<close>, together with the built-in \<^verbatim>\<open>ValueError\<close>, are the values of
  \<open>error\<close>; a function that may raise returns \<open>error + 'a\<close>, with \<open>Inl\<close> for the
  raised exception.
\<close>

datatype json =
    JNull
  | JBool bool
  | JInt int
  | JFloat real
  | JStr string
  | JList "json list"
  | JDict "(string \<times> json) list"

record GraphQLErrorItem =
  err_message :: string
  err_path :: "json option"
  err_extensions :: "json option"
  err_locations :: "json option"

datatype error =
    ValueError string
  | SerializationError string
  | LocalRateLimitError real real real
  | GraphQLOperationError "GraphQLErrorItem list" "json option"
  | TransportError int string

section \<open>The token bucket (\<^verbatim>\<open>graph/throttle.py\<close>)\<close>

text \<open>
  Python floats and datetimes are both read as real numbers (a datetime is the number of
  seconds since a fixed epoch), so rounding and the range of \<^verbatim>\<open>datetime\<close> are left
  out.  The injected clock \<^verbatim>\<open>now\<close> and the injected \<^verbatim>\<open>sleeper\<close> act on an outside
  world of type \<open>'w\<close>, threaded explicitly.  Calls are sequential: the lock around the
  refill and the deduction is not modelled.
\<close>

record TokenBucket =
  capacity :: real
  refill_rate_per_sec :: real
  tokens :: real
  last_refill :: real

type_synonym 'w clock = "'w \<Rightarrow> real \<times> 'w"
type_synonym 'w sleeper = "real \<Rightarrow> 'w \<Rightarrow> 'w"

definition TokenBucket_init ::
  "real \<Rightarrow> real \<Rightarrow> 'w clock \<Rightarrow> 'w \<Rightarrow> error + (TokenBucket \<times> 'w)" where
  "TokenBucket_init cap rate now w =
     (if cap \<le> 0 then Inl (ValueError ''capacity must be positive'')
      else if rate \<le> 0 then Inl (ValueError ''refill_rate_per_sec must be positive'')
      else (case now w of (t, w') \<Rightarrow>
        Inr (\<lparr>capacity = cap, refill_rate_per_sec = rate, tokens = cap, last_refill = t\<rparr>, w')))"

definition refill_locked :: "real \<Rightarrow> TokenBucket \<Rightarrow> TokenBucket" where
  "refill_locked now b =
     (let elapsed = now - last_refill b in
      if elapsed > 0
      then b\<lparr>tokens := min (capacity b) (tokens b + elapsed * refill_rate_per_sec b),
             last_refill := now\<rparr>
      else b)"

text \<open>
  The \<^verbatim>\<open>while True\<close> loop of \<^verbatim>\<open>consume\<close>, one iteration per unit of fuel.
  \<open>None\<close> means that the fuel ran out with the loop still running; the bucket and the
  world are returned in every case, since the loop mutates both.
\<close>

fun consume_loop ::
  "nat \<Rightarrow> 'w clock \<Rightarrow> 'w sleeper \<Rightarrow> real \<Rightarrow> real \<Rightarrow> real \<Rightarrow> real \<Rightarrow> TokenBucket \<Rightarrow> 'w
     \<Rightarrow> (error + real) option \<times> TokenBucket \<times> 'w" where
  "consume_loop 0 now sleeper cost max_wait_seconds deadline waited b w = (None, b, w)"
| "consume_loop (Suc n) now sleeper cost max_wait_seconds deadline waited b w =
     (case now w of (t, w1) \<Rightarrow>
        let b1 = refill_locked t b in
        if tokens b1 \<ge> cost
        then (Some (Inr waited), b1\<lparr>tokens := tokens b1 - cost\<rparr>, w1)
        else
          let needed = cost - tokens b1;
              last_wait_needed = needed / refill_rate_per_sec b1
          in case now w1 of (t2, w2) \<Rightarrow>
            let remaining = deadline - t2 in
            if remaining \<le> 0 \<or> last_wait_needed \<le> 0
            then (Some (Inl (LocalRateLimitError cost last_wait_needed max_wait_seconds)), b1, w2)
            else
              let sleep_for = min last_wait_needed remaining in
              consume_loop n now sleeper cost max_wait_seconds deadline
                (waited + sleep_for) b1 (sleeper sleep_for w2))"

definition consume ::
  "nat \<Rightarrow> 'w clock \<Rightarrow> 'w sleeper \<Rightarrow> real \<Rightarrow> real \<Rightarrow> TokenBucket \<Rightarrow> 'w
     \<Rightarrow> (error + real) option \<times> TokenBucket \<times> 'w" where
  "consume n now sleeper cost max_wait_seconds b w =
     (if cost \<le> 0 then (Some (Inr 0), b, w)
      else case now w of (t0, w0) \<Rightarrow>
        consume_loop n now sleeper cost max_wait_seconds (t0 + max_wait_seconds) 0 b w0)"

text \<open>
  A sequence of \<^verbatim>\<open>consume(cost, max_wait_seconds)\<close> calls on one bucket; a caller
  that catches the exception of one call can go on to the next.  Each call comes with the
  number of loop iterations it is followed for, so that the state in the middle of a call
  is the result of a run as well.
\<close>

fun consume_all ::
  "'w clock \<Rightarrow> 'w sleeper \<Rightarrow> (nat \<times> real \<times> real) list \<Rightarrow> TokenBucket \<Rightarrow> 'w
     \<Rightarrow> (error + real) option list \<times> TokenBucket \<times> 'w" where
  "consume_all now sleeper [] b w = ([], b, w)"
| "consume_all now sleeper ((n, cost, max_wait_seconds) # cs) b w =
     (case consume n now sleeper cost max_wait_seconds b w of (r, b', w') \<Rightarrow>
        case consume_all now sleeper cs b' w' of (rs, b'', w'') \<Rightarrow> (r # rs, b'', w''))"

definition bucket_ok :: "TokenBucket \<Rightarrow> bool" where
  "bucket_ok b \<longleftrightarrow> 0 < capacity b \<and> 0 < refill_rate_per_sec b
     \<and> 0 \<le> tokens b \<and> tokens b \<le> capacity b"

text \<open>The deterministic test clock: the world is the current time, and sleeping advances it.\<close>

definition fake_now :: "real clock" where
  "fake_now t = (t, t)"

definition fake_sleeper :: "real sleeper" where
  "fake_sleeper d t = t + d"

section \<open>Strings\<close>

text \<open>
  A Python \<^verbatim>\<open>str\<close> is a list of characters with code points below 256.
  \<^verbatim>\<open>str.strip()\<close> removes the characters for which \<^verbatim>\<open>str.isspace()\<close> holds
  from both ends; \<^verbatim>\<open>str(n)\<close> is the decimal numeral of an integer.
\<close>

definition is_space :: "char \<Rightarrow> bool" where
  "is_space c \<longleftrightarrow> (of_char c :: nat) \<in> {9, 10, 11, 12, 13, 28, 29, 30, 31, 32, 133, 160}"

definition strip :: "string \<Rightarrow> string" where
  "strip s = rev (dropWhile is_space (rev (dropWhile is_space s)))"

definition lower_char :: "char \<Rightarrow> char" where
  "lower_char c =
     (let n = (of_char c :: nat) in if 65 \<le> n \<and> n \<le> 90 then char_of (n + 32) else c)"

definition lower :: "string \<Rightarrow> string" where
  "lower s = map lower_char s"

definition digit_char :: "nat \<Rightarrow> char" where
  "digit_char d = char_of (48 + d)"

fun str_nat :: "nat \<Rightarrow> string" where
  "str_nat n = (if n < 10 then [digit_char n] else str_nat (n div 10) @ [digit_char (n mod 10)])"

definition str_int :: "int \<Rightarrow> string" where
  "str_int i = (if i < 0 then CHR ''-'' # str_nat (nat (- i)) else str_nat (nat i))"

section \<open>The Jira Agile REST models (\<^verbatim>\<open>rest/gen/jira_agile_api.py\<close>)\<close>

text \<open>
  A decoded JSON payload is a \<open>json\<close> value; a \<^verbatim>\<open>dict\<close> is the list of its
  items, with distinct keys, and \<^verbatim>\<open>raw.get(key)\<close> is \<^verbatim>\<open>None\<close> (here \<open>JNull\<close>)
  for a missing key.
\<close>

definition dict_get :: "(string \<times> json) list \<Rightarrow> string \<Rightarrow> json" where
  "dict_get raw key = (case map_of raw key of None \<Rightarrow> JNull | Some v \<Rightarrow> v)"

fun expect_dict :: "json \<Rightarrow> string \<Rightarrow> error + (string \<times> json) list" where
  "expect_dict (JDict d) path = Inr d"
| "expect_dict obj path = Inl (SerializationError (''Expected object at '' @ path))"

fun expect_list :: "json \<Rightarrow> string \<Rightarrow> error + json list" where
  "expect_list (JList xs) path = Inr xs"
| "expect_list obj path = Inl (SerializationError (''Expected list at '' @ path))"

fun expect_str :: "json \<Rightarrow> string \<Rightarrow> error + string" where
  "expect_str (JStr s) path = Inr s"
| "expect_str obj path = Inl (SerializationError (''Expected string at '' @ path))"

fun expect_bool :: "json \<Rightarrow> string \<Rightarrow> error + bool" where
  "expect_bool (JBool b) path = Inr b"
| "expect_bool obj path = Inl (SerializationError (''Expected boolean at '' @ path))"

fun expect_int :: "json \<Rightarrow> string \<Rightarrow> error + int" where
  "expect_int (JInt i) path = Inr i"
| "expect_int obj path = Inl (SerializationError (''Expected integer at '' @ path))"

text \<open>Sequencing of calls that may raise: the first exception ends the computation.\<close>

definition and_then :: "error + 'a \<Rightarrow> ('a \<Rightarrow> error + 'b) \<Rightarrow> error + 'b" where
  "and_then m f = (case m of Inl e \<Rightarrow> Inl e | Inr x \<Rightarrow> f x)"

text \<open>
  The pattern \<^verbatim>\<open>x = None; if raw.get(key) is not None: x = _expect_T(raw.get(key), f"{path}.key")\<close>
  that every optional field of the models follows.
\<close>

definition optional_field ::
  "(json \<Rightarrow> string \<Rightarrow> error + 'a) \<Rightarrow> (string \<times> json) list \<Rightarrow> string \<Rightarrow> string
     \<Rightarrow> error + 'a option" where
  "optional_field expect raw key path =
     (if dict_get raw key \<noteq> JNull
      then and_then (expect (dict_get raw key) (path @ ''.'' @ key)) (\<lambda>v. Inr (Some v))
      else Inr None)"

record Sprint =
  sprint_id :: "int option"
  sprint_name :: "string option"
  sprint_state :: "string option"
  start_date :: "string option"
  end_date :: "string option"
  complete_date :: "string option"
  origin_board_id :: "int option"
  goal :: "string option"

definition Sprint_from_dict :: "json \<Rightarrow> string \<Rightarrow> error + Sprint" where
  "Sprint_from_dict obj path =
     and_then (expect_dict obj path) (\<lambda>raw.
     and_then (optional_field expect_int raw ''id'' path) (\<lambda>i.
     and_then (optional_field expect_str raw ''name'' path) (\<lambda>nm.
     and_then (optional_field expect_str raw ''state'' path) (\<lambda>st.
     and_then (optional_field expect_str raw ''startDate'' path) (\<lambda>sd.
     and_then (optional_field expect_str raw ''endDate'' path) (\<lambda>ed.
     and_then (optional_field expect_str raw ''completeDate'' path) (\<lambda>cd.
     and_then (optional_field expect_int raw ''originBoardId'' path) (\<lambda>ob.
     and_then (optional_field expect_str raw ''goal'' path) (\<lambda>g.
       Inr \<lparr>sprint_id = i, sprint_name = nm, sprint_state = st, start_date = sd,
            end_date = ed, complete_date = cd, origin_board_id = ob, goal = g\<rparr>)))))))))"

record Board =
  board_id :: "int option"
  board_name :: "string option"
  board_type :: "string option"

definition Board_from_dict :: "json \<Rightarrow> string \<Rightarrow> error + Board" where
  "Board_from_dict obj path =
     and_then (expect_dict obj path) (\<lambda>raw.
     and_then (optional_field expect_int raw ''id'' path) (\<lambda>i.
     and_then (optional_field expect_str raw ''name'' path) (\<lambda>nm.
     and_then (optional_field expect_str raw ''type'' path) (\<lambda>ty.
       Inr \<lparr>board_id = i, board_name = nm, board_type = ty\<rparr>))))"

text \<open>
  \<^verbatim>\<open>SprintPage\<close> and \<^verbatim>\<open>BoardPage\<close> have the same four fields and differ in the
  type of the elements of \<^verbatim>\<open>values\<close> only.
\<close>

record 'a Page =
  start_at :: "int option"
  max_results :: "int option"
  is_last :: "bool option"
  page_values :: "'a list"

text \<open>
  The list comprehension
  \<^verbatim>\<open>[T.from_dict(item, f"{path}.values[{idx}]") for idx, item in enumerate(values_list)]\<close>:
  elements are parsed in order, from index \<open>idx\<close> on, and the first failure is raised.
\<close>

fun from_dict_each ::
  "(json \<Rightarrow> string \<Rightarrow> error + 'a) \<Rightarrow> string \<Rightarrow> nat \<Rightarrow> json list \<Rightarrow> error + 'a list" where
  "from_dict_each from_dict path idx [] = Inr []"
| "from_dict_each from_dict path idx (item # items) =
     and_then (from_dict item (path @ ''.values['' @ str_nat idx @ '']'')) (\<lambda>v.
     and_then (from_dict_each from_dict path (Suc idx) items) (\<lambda>vs. Inr (v # vs)))"

definition Page_from_dict ::
  "(json \<Rightarrow> string \<Rightarrow> error + 'a) \<Rightarrow> json \<Rightarrow> string \<Rightarrow> error + 'a Page" where
  "Page_from_dict from_dict obj path =
     and_then (expect_dict obj path) (\<lambda>raw.
     and_then (optional_field expect_int raw ''startAt'' path) (\<lambda>sa.
     and_then (optional_field expect_int raw ''maxResults'' path) (\<lambda>mr.
     and_then (optional_field expect_bool raw ''isLast'' path) (\<lambda>il.
     let values_raw = dict_get raw ''values'' in
     and_then (if values_raw \<noteq> JNull then expect_list values_raw (path @ ''.values'')
               else Inr []) (\<lambda>values_list.
     and_then (from_dict_each from_dict path 0 values_list) (\<lambda>vs.
       Inr \<lparr>start_at = sa, max_results = mr, is_last = il, page_values = vs\<rparr>))))))"

definition SprintPage_from_dict :: "json \<Rightarrow> string \<Rightarrow> error + Sprint Page" where
  "SprintPage_from_dict = Page_from_dict Sprint_from_dict"

definition BoardPage_from_dict :: "json \<Rightarrow> string \<Rightarrow> error + Board Page" where
  "BoardPage_from_dict = Page_from_dict Board_from_dict"

section \<open>The REST mappers (\<^verbatim>\<open>rest/mappers/jira_sprints.py\<close>, \<^verbatim>\<open>jira_boards.py\<close>)\<close>

record JiraSprint =
  js_id :: string
  js_name :: string
  js_state :: string
  js_start_at :: "string option"
  js_end_at :: "string option"
  js_complete_at :: "string option"

record JiraBoard =
  jb_id :: string
  jb_name :: string
  jb_type :: string

text \<open>
  \<^verbatim>\<open>x = None; if d is not None and d.strip(): x = d.strip()\<close>, the pattern of the three
  optional dates of \<^verbatim>\<open>map_sprint\<close>.
\<close>

definition stripped_or_none :: "string option \<Rightarrow> string option" where
  "stripped_or_none d =
     (case d of None \<Rightarrow> None | Some s \<Rightarrow> if strip s \<noteq> [] then Some (strip s) else None)"

definition map_sprint :: "Sprint \<Rightarrow> error + JiraSprint" where
  "map_sprint sprint =
     (case sprint_id sprint of
        None \<Rightarrow> Inl (ValueError ''sprint.id is required'')
      | Some sid \<Rightarrow>
     (case sprint_name sprint of
        None \<Rightarrow> Inl (ValueError ''sprint.name is required'')
      | Some name \<Rightarrow>
     if strip name = [] then Inl (ValueError ''sprint.name is required'')
     else
     (case sprint_state sprint of
        None \<Rightarrow> Inl (ValueError ''sprint.state is required'')
      | Some state \<Rightarrow>
     if strip state = [] then Inl (ValueError ''sprint.state is required'')
     else
       Inr \<lparr>js_id = str_int sid, js_name = strip name, js_state = strip state,
            js_start_at = stripped_or_none (start_date sprint),
            js_end_at = stripped_or_none (end_date sprint),
            js_complete_at = stripped_or_none (complete_date sprint)\<rparr>)))"

definition map_rest_board :: "Board \<Rightarrow> error + JiraBoard" where
  "map_rest_board board =
     Inr \<lparr>jb_id = (case board_id board of None \<Rightarrow> [] | Some i \<Rightarrow> str_int i),
          jb_name = (case board_name board of None \<Rightarrow> [] | Some s \<Rightarrow> s),
          jb_type = (case board_type board of None \<Rightarrow> [] | Some s \<Rightarrow> s)\<rparr>"

section \<open>Pagination runs\<close>

text \<open>
  An iterator is a generator: the caller sees the items it yields and then either its
  normal end or the exception it raises.  A run records the items yielded so far, how the
  run ended (\<open>None\<close> while it is still going, when the fuel of the model is used up) and
  the number of page fetches made.
\<close>

datatype run_end = Done | Failed error

record 'a run =
  yielded :: "'a list"
  ended :: "run_end option"
  fetches :: nat

text \<open>
  \<^verbatim>\<open>for item in values: yield mapper(item)\<close>: the items mapped before the first
  exception are yielded, and the exception, if any, ends the run.
\<close>

fun yield_each :: "('a \<Rightarrow> error + 'b) \<Rightarrow> 'a list \<Rightarrow> 'b list \<times> error option" where
  "yield_each f [] = ([], None)"
| "yield_each f (x # xs) =
     (case f x of
        Inl e \<Rightarrow> ([], Some e)
      | Inr y \<Rightarrow> (case yield_each f xs of (ys, r) \<Rightarrow> (y # ys, r)))"

section \<open>The REST iterators (\<^verbatim>\<open>rest/api/jira_sprints.py\<close>, \<^verbatim>\<open>jira_boards.py\<close>)\<close>

text \<open>
  \<^verbatim>\<open>client.get_json(path, params)\<close> is the collaborator: it is given the number of
  requests already made in this run (so that the server may answer the same request
  differently over time), the URL path and the query parameters, and returns the decoded
  payload or raises.
\<close>

type_synonym get_json = "nat \<Rightarrow> string \<Rightarrow> (string \<times> json) list \<Rightarrow> error + json"

definition sprints_path :: "int \<Rightarrow> string" where
  "sprints_path board = ''/rest/agile/1.0/board/'' @ str_int board @ ''/sprint''"

definition sprints_params :: "int \<Rightarrow> int \<Rightarrow> string option \<Rightarrow> (string \<times> json) list" where
  "sprints_params start page_size state_clean =
     [(''startAt'', JInt start), (''maxResults'', JInt page_size)]
     @ (case state_clean of None \<Rightarrow> [] | Some s \<Rightarrow> [(''state'', JStr s)])"

definition boards_params :: "int \<Rightarrow> int \<Rightarrow> (string \<times> json) list" where
  "boards_params start page_size = [(''startAt'', JInt start), (''maxResults'', JInt page_size)]"

fun sprints_loop ::
  "nat \<Rightarrow> get_json \<Rightarrow> int \<Rightarrow> string option \<Rightarrow> int \<Rightarrow> int \<Rightarrow> int set \<Rightarrow> nat
     \<Rightarrow> JiraSprint list \<Rightarrow> JiraSprint run" where
  "sprints_loop 0 get_json board state_clean page_size start seen k acc =
     \<lparr>yielded = acc, ended = None, fetches = k\<rparr>"
| "sprints_loop (Suc n) get_json board state_clean page_size start seen k acc =
     (if start \<in> seen
      then \<lparr>yielded = acc, ended = Some (Failed (SerializationError
              ''Pagination startAt repeated; aborting to prevent infinite loop'')),
            fetches = k\<rparr>
      else
        let seen' = insert start seen;
            params = sprints_params start page_size state_clean
        in
        case get_json k (sprints_path board) params of
          Inl e \<Rightarrow> \<lparr>yielded = acc, ended = Some (Failed e), fetches = Suc k\<rparr>
        | Inr payload \<Rightarrow>
        (case SprintPage_from_dict payload ''data'' of
          Inl e \<Rightarrow> \<lparr>yielded = acc, ended = Some (Failed e), fetches = Suc k\<rparr>
        | Inr page \<Rightarrow>
        let vs = page_values page in
        (case yield_each map_sprint vs of
          (ys, Some e) \<Rightarrow> \<lparr>yielded = acc @ ys, ended = Some (Failed e), fetches = Suc k\<rparr>
        | (ys, None) \<Rightarrow>
        let has_is_last = (is_last page \<noteq> None) in
        if has_is_last \<and> is_last page = Some True
        then \<lparr>yielded = acc @ ys, ended = Some Done, fetches = Suc k\<rparr>
        else if int (length vs) < page_size
        then \<lparr>yielded = acc @ ys, ended = Some Done, fetches = Suc k\<rparr>
        else if length vs = 0
        then (if has_is_last \<and> is_last page \<noteq> Some True
              then \<lparr>yielded = acc @ ys, ended = Some (Failed (SerializationError
                ''Received empty page with isLast=false; cannot continue pagination'')),
                fetches = Suc k\<rparr>
              else \<lparr>yielded = acc @ ys, ended = Some Done, fetches = Suc k\<rparr>)
        else sprints_loop n get_json board state_clean page_size
               (start + int (length vs)) seen' (Suc k) (acc @ ys))))"

definition iter_board_sprints_via_rest ::
  "nat \<Rightarrow> get_json \<Rightarrow> int \<Rightarrow> string option \<Rightarrow> int \<Rightarrow> JiraSprint run" where
  "iter_board_sprints_via_rest n get_json board state page_size =
     (if board \<le> 0
      then \<lparr>yielded = [], ended = Some (Failed (ValueError
              ''board_id must be a positive integer'')), fetches = 0\<rparr>
      else if page_size \<le> 0
      then \<lparr>yielded = [], ended = Some (Failed (ValueError ''page_size must be > 0'')),
            fetches = 0\<rparr>
      else
        case state of
          None \<Rightarrow> sprints_loop n get_json board None page_size 0 {} 0 []
        | Some s \<Rightarrow>
            let state_clean = lower (strip s) in
            if state_clean \<notin> {''future'', ''active'', ''closed''}
            then \<lparr>yielded = [], ended = Some (Failed (ValueError
                    ''state must be one of: future, active, closed'')), fetches = 0\<rparr>
            else sprints_loop n get_json board (Some state_clean) page_size 0 {} 0 [])"

fun boards_loop ::
  "nat \<Rightarrow> get_json \<Rightarrow> int \<Rightarrow> int \<Rightarrow> int set \<Rightarrow> nat \<Rightarrow> JiraBoard list \<Rightarrow> JiraBoard run" where
  "boards_loop 0 get_json page_size start seen k acc =
     \<lparr>yielded = acc, ended = None, fetches = k\<rparr>"
| "boards_loop (Suc n) get_json page_size start seen k acc =
     (if start \<in> seen
      then \<lparr>yielded = acc, ended = Some (Failed (SerializationError
              ''Pagination startAt repeated; aborting to prevent infinite loop'')),
            fetches = k\<rparr>
      else
        let seen' = insert start seen;
            params = boards_params start page_size
        in
        case get_json k ''/rest/agile/1.0/board'' params of
          Inl e \<Rightarrow> \<lparr>yielded = acc, ended = Some (Failed e), fetches = Suc k\<rparr>
        | Inr payload \<Rightarrow>
        (case BoardPage_from_dict payload ''data'' of
          Inl e \<Rightarrow> \<lparr>yielded = acc, ended = Some (Failed e), fetches = Suc k\<rparr>
        | Inr page \<Rightarrow>
        let vs = page_values page in
        (case yield_each map_rest_board vs of
          (ys, Some e) \<Rightarrow> \<lparr>yielded = acc @ ys, ended = Some (Failed e), fetches = Suc k\<rparr>
        | (ys, None) \<Rightarrow>
        let has_is_last = (is_last page \<noteq> None) in
        if has_is_last \<and> is_last page = Some True
        then \<lparr>yielded = acc @ ys, ended = Some Done, fetches = Suc k\<rparr>
        else if int (length vs) < page_size
        then \<lparr>yielded = acc @ ys, ended = Some Done, fetches = Suc k\<rparr>
        else if length vs = 0
        then \<lparr>yielded = acc @ ys, ended = Some Done, fetches = Suc k\<rparr>
        else boards_loop n get_json page_size (start + int (length vs)) seen' (Suc k)
               (acc @ ys))))"

definition iter_boards_via_rest :: "nat \<Rightarrow> get_json \<Rightarrow> int \<Rightarrow> JiraBoard run" where
  "iter_boards_via_rest n get_json page_size =
     (if page_size \<le> 0
      then \<lparr>yielded = [], ended = Some (Failed (ValueError ''page_size must be > 0'')),
            fetches = 0\<rparr>
      else boards_loop n get_json page_size 0 {} 0 [])"

section \<open>Well-typed fields\<close>

text \<open>
  The vocabulary of the statements about \<^verbatim>\<open>from_dict\<close>: a field is absent when the key
  is missing or null, and of the wrong type when it is present with a value that the
  expected type rejects (\<^verbatim>\<open>bool\<close> is not accepted as an integer).
\<close>

fun is_int_json :: "json \<Rightarrow> bool" where
  "is_int_json (JInt i) = True"
| "is_int_json v = False"

fun is_bool_json :: "json \<Rightarrow> bool" where
  "is_bool_json (JBool b) = True"
| "is_bool_json v = False"

fun is_list_json :: "json \<Rightarrow> bool" where
  "is_list_json (JList xs) = True"
| "is_list_json v = False"

definition field_absent :: "(string \<times> json) list \<Rightarrow> string \<Rightarrow> bool" where
  "field_absent raw key \<longleftrightarrow> dict_get raw key = JNull"

definition field_ok :: "(json \<Rightarrow> bool) \<Rightarrow> (string \<times> json) list \<Rightarrow> string \<Rightarrow> bool" where
  "field_ok ty raw key \<longleftrightarrow> field_absent raw key \<or> ty (dict_get raw key)"

definition field_wrong :: "(json \<Rightarrow> bool) \<Rightarrow> (string \<times> json) list \<Rightarrow> string \<Rightarrow> bool" where
  "field_wrong ty raw key \<longleftrightarrow> \<not> field_absent raw key \<and> \<not> ty (dict_get raw key)"

definition page_header_ok :: "(string \<times> json) list \<Rightarrow> bool" where
  "page_header_ok raw \<longleftrightarrow> field_ok is_int_json raw ''startAt''
     \<and> field_ok is_int_json raw ''maxResults'' \<and> field_ok is_bool_json raw ''isLast''"

definition element_path :: "string \<Rightarrow> nat \<Rightarrow> string" where
  "element_path path idx = path @ ''.values['' @ str_nat idx @ '']''"

text \<open>
  An exception names a path when it is a \<^verbatim>\<open>SerializationError\<close> whose message is
  \<^verbatim>\<open>Expected <type> at <path>\<close>, possibly followed by the name of a field below the path.
\<close>

fun names_path :: "error \<Rightarrow> string \<Rightarrow> bool" where
  "names_path (SerializationError msg) p =
     list_ex (\<lambda>kind. prefix (''Expected '' @ kind @ '' at '' @ p) msg)
       [''object'', ''list'', ''string'', ''boolean'', ''integer'']"
| "names_path e p = False"

fun is_str_json :: "json \<Rightarrow> bool" where
  "is_str_json (JStr s) = True"
| "is_str_json v = False"

text \<open>
  The fields of \<^verbatim>\<open>Sprint\<close> and of \<^verbatim>\<open>Board\<close> as the two dataclasses declare them, in
  the order in which \<^verbatim>\<open>from_dict\<close> reads them: the key in the payload, the test for
  the declared type (\<^verbatim>\<open>Optional[int]\<close> or \<^verbatim>\<open>Optional[str]\<close>), and the name of that type
  in an error message.
\<close>

definition sprint_fields :: "(string \<times> (json \<Rightarrow> bool) \<times> string) list" where
  "sprint_fields =
     [(''id'', is_int_json, ''integer''), (''name'', is_str_json, ''string''),
      (''state'', is_str_json, ''string''), (''startDate'', is_str_json, ''string''),
      (''endDate'', is_str_json, ''string''), (''completeDate'', is_str_json, ''string''),
      (''originBoardId'', is_int_json, ''integer''), (''goal'', is_str_json, ''string'')]"

definition board_fields :: "(string \<times> (json \<Rightarrow> bool) \<times> string) list" where
  "board_fields =
     [(''id'', is_int_json, ''integer''), (''name'', is_str_json, ''string''),
      (''type'', is_str_json, ''string'')]"

text \<open>
  An element of \<^verbatim>\<open>values\<close> is malformed when it is not an object, or when one of its
  declared fields is present with a value of the wrong type.  \<open>element_error\<close> is the message
  that names the offence: the element's own path when it is not an object, and otherwise
  the path of the first declared field of the wrong type.  It is \<open>None\<close> for an element
  that is not malformed.
\<close>

fun first_wrong ::
  "(string \<times> (json \<Rightarrow> bool) \<times> string) list \<Rightarrow> (string \<times> json) list
     \<Rightarrow> (string \<times> string) option" where
  "first_wrong [] raw = None"
| "first_wrong ((key, ty, kind) # fs) raw =
     (if field_wrong ty raw key then Some (key, kind) else first_wrong fs raw)"

fun element_error ::
  "(string \<times> (json \<Rightarrow> bool) \<times> string) list \<Rightarrow> json \<Rightarrow> string \<Rightarrow> string option" where
  "element_error fs (JDict raw) p =
     (case first_wrong fs raw of
        None \<Rightarrow> None
      | Some (key, kind) \<Rightarrow> Some (''Expected '' @ kind @ '' at '' @ p @ ''.'' @ key))"
| "element_error fs obj p = Some (''Expected object at '' @ p)"

section \<open>The generated GraphQL worklog models\<close>

text \<open>
  The module \<^verbatim>\<open>graph/gen/jira_worklogs_api.py\<close> is written by
  \<^verbatim>\<open>tools/generate_jira_worklog_models.py\<close>; the definitions follow the template of the
  generator.  The two constants \<^verbatim>\<open>PAGEINFO_HAS_END_CURSOR\<close> and
  \<^verbatim>\<open>WORKLOGS_EDGE_HAS_CURSOR\<close>, which the generator reads off the schema, are parameters.
\<close>

fun expect_optional_str :: "json \<Rightarrow> string \<Rightarrow> error + string option" where
  "expect_optional_str JNull path = Inr None"
| "expect_optional_str (JStr s) path =
     (if s = [] then Inl (SerializationError (''Expected non-empty string at '' @ path))
      else Inr (Some s))"
| "expect_optional_str obj path = Inl (SerializationError (''Expected string at '' @ path))"

record PageInfo =
  has_next_page :: bool
  end_cursor :: "string option"

definition PageInfo_from_dict :: "bool \<Rightarrow> json \<Rightarrow> string \<Rightarrow> error + PageInfo" where
  "PageInfo_from_dict pageinfo_has_end_cursor obj path =
     and_then (expect_dict obj path) (\<lambda>raw.
     and_then (case dict_get raw ''hasNextPage'' of
                 JBool b \<Rightarrow> Inr b
               | _ \<Rightarrow> Inl (SerializationError
                   (''Expected boolean at '' @ path @ ''.hasNextPage''))) (\<lambda>has_next.
     and_then (if pageinfo_has_end_cursor
               then optional_field expect_str raw ''endCursor'' path
               else Inr None) (\<lambda>ec.
       Inr \<lparr>has_next_page = has_next, end_cursor = ec\<rparr>)))"

record ApiUser =
  account_id :: string
  user_name :: string

definition ApiUser_from_dict :: "json \<Rightarrow> string \<Rightarrow> error + ApiUser" where
  "ApiUser_from_dict obj path =
     and_then (expect_dict obj path) (\<lambda>raw.
     and_then (expect_str (dict_get raw ''accountId'') (path @ ''.accountId'')) (\<lambda>a.
     and_then (expect_str (dict_get raw ''name'') (path @ ''.name'')) (\<lambda>n.
       Inr \<lparr>account_id = a, user_name = n\<rparr>)))"

record JiraEstimate =
  time_in_seconds :: "int option"

definition JiraEstimate_from_dict :: "json \<Rightarrow> string \<Rightarrow> error + JiraEstimate" where
  "JiraEstimate_from_dict obj path =
     and_then (expect_dict obj path) (\<lambda>raw.
     let v = dict_get raw ''timeInSeconds'' in
     if v = JNull then Inr \<lparr>time_in_seconds = None\<rparr>
     else and_then (expect_int v (path @ ''.timeInSeconds'')) (\<lambda>i.
       Inr \<lparr>time_in_seconds = Some i\<rparr>))"

record JiraWorklogNode =
  worklog_id :: string
  author :: "ApiUser option"
  time_spent :: JiraEstimate
  created :: string
  updated :: "string option"
  started :: "string option"

definition JiraWorklogNode_from_dict :: "json \<Rightarrow> string \<Rightarrow> error + JiraWorklogNode" where
  "JiraWorklogNode_from_dict obj path =
     and_then (expect_dict obj path) (\<lambda>raw.
     let author_raw = dict_get raw ''author'' in
     and_then (expect_str (dict_get raw ''worklogId'') (path @ ''.worklogId'')) (\<lambda>wid.
     and_then (if author_raw \<noteq> JNull
               then and_then (ApiUser_from_dict author_raw (path @ ''.author''))
                      (\<lambda>u. Inr (Some u))
               else Inr None) (\<lambda>au.
     and_then (JiraEstimate_from_dict (dict_get raw ''timeSpent'') (path @ ''.timeSpent'')) (\<lambda>ts.
     and_then (expect_str (dict_get raw ''created'') (path @ ''.created'')) (\<lambda>cr.
     and_then (expect_optional_str (dict_get raw ''updated'') (path @ ''.updated'')) (\<lambda>up.
     and_then (expect_optional_str (dict_get raw ''startDate'') (path @ ''.startDate'')) (\<lambda>st.
       Inr \<lparr>worklog_id = wid, author = au, time_spent = ts, created = cr, updated = up,
            started = st\<rparr>)))))))"

record JiraWorklogEdge =
  cursor :: "string option"
  node :: JiraWorklogNode

definition JiraWorklogEdge_from_dict :: "bool \<Rightarrow> json \<Rightarrow> string \<Rightarrow> error + JiraWorklogEdge" where
  "JiraWorklogEdge_from_dict worklogs_edge_has_cursor obj path =
     and_then (expect_dict obj path) (\<lambda>raw.
     and_then (if worklogs_edge_has_cursor
               then optional_field expect_str raw ''cursor'' path
               else Inr None) (\<lambda>c.
     and_then (JiraWorklogNode_from_dict (dict_get raw ''node'') (path @ ''.node'')) (\<lambda>nd.
       Inr \<lparr>cursor = c, node = nd\<rparr>)))"

record JiraWorklogConnection =
  page_info :: PageInfo
  edges :: "JiraWorklogEdge list"

fun edges_from_dict :: "bool \<Rightarrow> string \<Rightarrow> nat \<Rightarrow> json list \<Rightarrow> error + JiraWorklogEdge list" where
  "edges_from_dict ehc path idx [] = Inr []"
| "edges_from_dict ehc path idx (item # items) =
     and_then (JiraWorklogEdge_from_dict ehc item (path @ ''.edges['' @ str_nat idx @ '']''))
       (\<lambda>e. and_then (edges_from_dict ehc path (Suc idx) items) (\<lambda>es. Inr (e # es)))"

definition JiraWorklogConnection_from_dict ::
  "bool \<Rightarrow> bool \<Rightarrow> json \<Rightarrow> string \<Rightarrow> error + JiraWorklogConnection" where
  "JiraWorklogConnection_from_dict phc ehc obj path =
     and_then (expect_dict obj path) (\<lambda>raw.
     and_then (PageInfo_from_dict phc (dict_get raw ''pageInfo'') (path @ ''.pageInfo'')) (\<lambda>pi.
     and_then (expect_list (dict_get raw ''edges'') (path @ ''.edges'')) (\<lambda>edges_list.
     and_then (edges_from_dict ehc path 0 edges_list) (\<lambda>es.
       Inr \<lparr>page_info = pi, edges = es\<rparr>))))"

definition parse_issue_worklogs_page ::
  "bool \<Rightarrow> bool \<Rightarrow> json \<Rightarrow> error + JiraWorklogConnection" where
  "parse_issue_worklogs_page phc ehc data =
     and_then (expect_dict data ''data'') (\<lambda>root.
     let issue = dict_get root ''issue'' in
     if issue = JNull then Inl (SerializationError ''Missing data.issue'')
     else
     and_then (expect_dict issue ''data.issue'') (\<lambda>issue_obj.
     let worklogs = dict_get issue_obj ''worklogs'' in
     if worklogs = JNull then Inl (SerializationError ''Missing data.issue.worklogs'')
     else JiraWorklogConnection_from_dict phc ehc worklogs ''data.issue.worklogs''))"

section \<open>The GraphQL worklog mapper (\<^verbatim>\<open>graph/mappers/jira_worklogs.py\<close>)\<close>

record CanonicalUser =
  cu_account_id :: string
  cu_display_name :: string
  cu_email :: "string option"

record JiraWorklog =
  wl_issue_key :: string
  wl_worklog_id :: string
  wl_started_at :: string
  wl_time_spent_seconds :: int
  wl_created_at :: string
  wl_updated_at :: string
  wl_author :: "CanonicalUser option"

definition require_non_empty :: "string option \<Rightarrow> string \<Rightarrow> error + string" where
  "require_non_empty v path =
     (case v of
        None \<Rightarrow> Inl (ValueError (path @ '' is required''))
      | Some s \<Rightarrow> if strip s = [] then Inl (ValueError (path @ '' is required''))
                  else Inr (strip s))"

definition map_user :: "ApiUser option \<Rightarrow> string \<Rightarrow> error + CanonicalUser option" where
  "map_user user path =
     (case user of
        None \<Rightarrow> Inr None
      | Some u \<Rightarrow>
          and_then (require_non_empty (Some (account_id u)) (path @ ''.accountId'')) (\<lambda>a.
          and_then (require_non_empty (Some (user_name u)) (path @ ''.name'')) (\<lambda>d.
            Inr (Some \<lparr>cu_account_id = a, cu_display_name = d, cu_email = None\<rparr>))))"

definition map_worklog :: "string \<Rightarrow> JiraWorklogNode \<Rightarrow> error + JiraWorklog" where
  "map_worklog issue_key worklog =
     (let issue_key_clean = strip issue_key in
      if issue_key_clean = [] then Inl (ValueError ''issue_key is required'')
      else
      and_then (require_non_empty (Some (worklog_id worklog)) ''worklog.worklogId'') (\<lambda>wid.
      and_then (require_non_empty (started worklog) ''worklog.startDate'') (\<lambda>started_at.
      and_then (require_non_empty (Some (created worklog)) ''worklog.created'') (\<lambda>created_at.
      and_then (require_non_empty (updated worklog) ''worklog.updated'') (\<lambda>updated_at.
      case time_in_seconds (time_spent worklog) of
        None \<Rightarrow> Inl (ValueError ''worklog.timeSpent.timeInSeconds is required'')
      | Some ts \<Rightarrow>
          if ts < 0 then Inl (ValueError ''worklog.timeSpent.timeInSeconds must be >= 0'')
          else
          and_then (map_user (author worklog) ''worklog.author'') (\<lambda>au.
            Inr \<lparr>wl_issue_key = issue_key_clean, wl_worklog_id = wid,
                 wl_started_at = started_at, wl_time_spent_seconds = ts,
                 wl_created_at = created_at, wl_updated_at = updated_at,
                 wl_author = au\<rparr>))))))"

section \<open>The GraphQL worklog iterator (\<^verbatim>\<open>graph/api/jira_worklogs.py\<close>)\<close>

record GraphQLResult =
  result_data :: "json option"
  result_errors :: "GraphQLErrorItem list option"
  result_extensions :: "json option"

text \<open>
  \<^verbatim>\<open>client.execute(query, variables, operation_name, experimental_apis)\<close> is the
  collaborator: it is given the number of requests already made in this run, the operation
  name and the variables, and returns a \<^verbatim>\<open>GraphQLResult\<close> or raises.
\<close>

type_synonym execute = "nat \<Rightarrow> string \<Rightarrow> (string \<times> json) list \<Rightarrow> error + GraphQLResult"

fun first_truthy :: "string option list \<Rightarrow> string option" where
  "first_truthy [] = None"
| "first_truthy (c # cs) =
     (case c of
        Some s \<Rightarrow> if s \<noteq> [] then Some s else first_truthy cs
      | None \<Rightarrow> first_truthy cs)"

definition next_after_from_pageinfo ::
  "bool \<Rightarrow> bool \<Rightarrow> string option \<Rightarrow> bool \<Rightarrow> string option list \<Rightarrow> string
     \<Rightarrow> error + string option" where
  "next_after_from_pageinfo pageinfo_has_end_cursor has_next end_c edge_has_cursor
       edges_cursors path =
     (if \<not> has_next then Inr None
      else if pageinfo_has_end_cursor \<and> end_c \<noteq> None \<and> end_c \<noteq> Some []
      then Inr end_c
      else case (if edge_has_cursor then first_truthy (rev edges_cursors) else None) of
             Some c \<Rightarrow> Inr (Some c)
           | None \<Rightarrow> Inl (SerializationError (''Pagination cursor missing for '' @ path)))"

definition worklogs_variables ::
  "string \<Rightarrow> string \<Rightarrow> int \<Rightarrow> string option \<Rightarrow> (string \<times> json) list" where
  "worklogs_variables cloud_id_clean issue_key_clean page_size after =
     [(''cloudId'', JStr cloud_id_clean), (''key'', JStr issue_key_clean),
      (''first'', JInt page_size),
      (''after'', case after of None \<Rightarrow> JNull | Some a \<Rightarrow> JStr a)]"

text \<open>
  Lines 97 to 116 of the loop body: one request, the check for missing data, and the
  parse, whose \<^verbatim>\<open>SerializationError\<close> becomes a \<^verbatim>\<open>GraphQLOperationError\<close> with the
  partial data when the response carried errors.
\<close>

definition parse_or_operation_error ::
  "(json \<Rightarrow> error + 'a) \<Rightarrow> GraphQLResult \<Rightarrow> error + 'a" where
  "parse_or_operation_error parse result =
     (case result_data result of
        None \<Rightarrow> Inl (SerializationError ''Missing GraphQL data in response'')
      | Some d \<Rightarrow>
          (case parse d of
             Inr v \<Rightarrow> Inr v
           | Inl (SerializationError m) \<Rightarrow>
               (case result_errors result of
                  Some (e # es) \<Rightarrow> Inl (GraphQLOperationError (e # es) (Some d))
                | _ \<Rightarrow> Inl (SerializationError m))
           | Inl other \<Rightarrow> Inl other))"

definition fetch_worklogs_page ::
  "bool \<Rightarrow> bool \<Rightarrow> execute \<Rightarrow> nat \<Rightarrow> string \<Rightarrow> string \<Rightarrow> int \<Rightarrow> string option
     \<Rightarrow> error + JiraWorklogConnection" where
  "fetch_worklogs_page phc ehc execute k cloud_id_clean issue_key_clean page_size after =
     and_then (execute k ''JiraIssueWorklogsPage''
                 (worklogs_variables cloud_id_clean issue_key_clean page_size after))
       (parse_or_operation_error (parse_issue_worklogs_page phc ehc))"

text \<open>The call of \<^verbatim>\<open>_next_after_from_pageinfo\<close> in the loop, on the parsed page.\<close>

definition conn_next_after ::
  "bool \<Rightarrow> bool \<Rightarrow> string \<Rightarrow> JiraWorklogConnection \<Rightarrow> error + string option" where
  "conn_next_after phc ehc issue_key conn =
     next_after_from_pageinfo phc (has_next_page (page_info conn))
       (end_cursor (page_info conn)) ehc (map cursor (edges conn))
       (''jira.issue['' @ issue_key @ ''].worklogs'')"

fun worklogs_loop ::
  "nat \<Rightarrow> bool \<Rightarrow> bool \<Rightarrow> execute \<Rightarrow> string \<Rightarrow> string \<Rightarrow> int \<Rightarrow> string option \<Rightarrow> string set
     \<Rightarrow> nat \<Rightarrow> JiraWorklog list \<Rightarrow> JiraWorklog run" where
  "worklogs_loop 0 phc ehc execute cloud issue_key page_size after seen k acc =
     \<lparr>yielded = acc, ended = None, fetches = k\<rparr>"
| "worklogs_loop (Suc n) phc ehc execute cloud issue_key page_size after seen k acc =
     (case fetch_worklogs_page phc ehc execute k cloud issue_key page_size after of
        Inl e \<Rightarrow> \<lparr>yielded = acc, ended = Some (Failed e), fetches = Suc k\<rparr>
      | Inr conn \<Rightarrow>
      (case yield_each (\<lambda>edge. map_worklog issue_key (node edge)) (edges conn) of
        (ys, Some e) \<Rightarrow> \<lparr>yielded = acc @ ys, ended = Some (Failed e), fetches = Suc k\<rparr>
      | (ys, None) \<Rightarrow>
      (case conn_next_after phc ehc issue_key conn of
        Inl e \<Rightarrow> \<lparr>yielded = acc @ ys, ended = Some (Failed e), fetches = Suc k\<rparr>
      | Inr None \<Rightarrow> \<lparr>yielded = acc @ ys, ended = Some Done, fetches = Suc k\<rparr>
      | Inr (Some next_after) \<Rightarrow>
          if next_after \<in> seen
          then \<lparr>yielded = acc @ ys, ended = Some (Failed (SerializationError
                  ''Pagination cursor repeated; aborting to prevent infinite loop'')),
                fetches = Suc k\<rparr>
          else worklogs_loop n phc ehc execute cloud issue_key page_size (Some next_after)
                 (insert next_after seen) (Suc k) (acc @ ys))))"

definition iter_issue_worklogs_via_graphql ::
  "nat \<Rightarrow> bool \<Rightarrow> bool \<Rightarrow> execute \<Rightarrow> string \<Rightarrow> string \<Rightarrow> int \<Rightarrow> JiraWorklog run" where
  "iter_issue_worklogs_via_graphql n phc ehc execute cloud_id issue_key page_size =
     (let cloud_id_clean = strip cloud_id; issue_key_clean = strip issue_key in
      if cloud_id_clean = []
      then \<lparr>yielded = [], ended = Some (Failed (ValueError ''cloud_id is required'')),
            fetches = 0\<rparr>
      else if issue_key_clean = []
      then \<lparr>yielded = [], ended = Some (Failed (ValueError ''issue_key is required'')),
            fetches = 0\<rparr>
      else if page_size \<le> 0
      then \<lparr>yielded = [], ended = Some (Failed (ValueError ''page_size must be > 0'')),
            fetches = 0\<rparr>
      else worklogs_loop n phc ehc execute cloud_id_clean issue_key_clean page_size None {} 0 [])"

section \<open>Sample servers\<close>

text \<open>
  Servers in the manner of the mock transports of the unit tests, used to run the
  iterators on concrete input: a REST server that answers every request with an empty
  page that is not the last, a GraphQL server that answers every request with an empty
  page and the cursor \<^verbatim>\<open>c1\<close>, and a worklog connection and a sprint list of 107
  elements, served in pages of 50, 50 and 7.  The paging GraphQL server answers by the
  \<^verbatim>\<open>after\<close> variable, the paging REST server by the \<^verbatim>\<open>startAt\<close> parameter.
\<close>

definition sample_empty_page_server :: get_json where
  "sample_empty_page_server k url params =
     Inr (JDict [(''isLast'', JBool False), (''values'', JList [])])"


definition sample_edge_json :: "nat \<Rightarrow> json" where
  "sample_edge_json i =
     JDict [(''node'', JDict [(''worklogId'', JStr ''w''),
       (''timeSpent'', JDict [(''timeInSeconds'', JInt (int i))]),
       (''created'', JStr ''c''), (''updated'', JStr ''u''), (''startDate'', JStr ''s'')])]"

definition sample_worklogs_result :: "bool \<Rightarrow> json \<Rightarrow> nat list \<Rightarrow> GraphQLResult" where
  "sample_worklogs_result has_next end_c ids =
     \<lparr>result_data = Some (JDict [(''issue'', JDict [(''worklogs'',
         JDict [(''pageInfo'', JDict [(''hasNextPage'', JBool has_next), (''endCursor'', end_c)]),
                (''edges'', JList (map sample_edge_json ids))])])]),
      result_errors = None, result_extensions = None\<rparr>"

definition sample_worklogs_server :: execute where
  "sample_worklogs_server k op vars =
     (let after = dict_get vars ''after'' in
      if after = JNull then Inr (sample_worklogs_result True (JStr ''c1'') [0..<50])
      else if after = JStr ''c1'' then Inr (sample_worklogs_result True (JStr ''c2'') [50..<100])
      else if after = JStr ''c2'' then Inr (sample_worklogs_result False JNull [100..<107])
      else Inl (TransportError 400 ''unknown cursor''))"

definition sample_edge :: "nat \<Rightarrow> JiraWorklogEdge" where
  "sample_edge i =
     \<lparr>cursor = None,
      node = \<lparr>worklog_id = ''w'', author = None,
               time_spent = \<lparr>time_in_seconds = Some (int i)\<rparr>, created = ''c'',
               updated = Some ''u'', started = Some ''s''\<rparr>\<rparr>"

definition sample_worklog :: "nat \<Rightarrow> JiraWorklog" where
  "sample_worklog i =
     \<lparr>wl_issue_key = ''A-1'', wl_worklog_id = ''w'', wl_started_at = ''s'',
      wl_time_spent_seconds = int i, wl_created_at = ''c'', wl_updated_at = ''u'',
      wl_author = None\<rparr>"

definition sample_sprint_json :: "nat \<Rightarrow> json" where
  "sample_sprint_json i =
     JDict [(''id'', JInt (int i)), (''name'', JStr ''S''), (''state'', JStr ''active'')]"

definition sample_sprints_payload :: "bool \<Rightarrow> nat list \<Rightarrow> json" where
  "sample_sprints_payload final ids =
     JDict [(''isLast'', JBool final), (''values'', JList (map sample_sprint_json ids))]"

definition sample_sprints_server :: get_json where
  "sample_sprints_server k url params =
     (let start = dict_get params ''startAt'' in
      if start = JInt 0 then Inr (sample_sprints_payload False [0..<50])
      else if start = JInt 50 then Inr (sample_sprints_payload False [50..<100])
      else if start = JInt 100 then Inr (sample_sprints_payload True [100..<107])
      else Inl (TransportError 400 ''unknown offset''))"



definition sample_parsed_sprint :: "nat \<Rightarrow> Sprint" where
  "sample_parsed_sprint i =
     \<lparr>sprint_id = Some (int i), sprint_name = Some ''S'', sprint_state = Some ''active'',
      start_date = None, end_date = None, complete_date = None, origin_board_id = None,
      goal = None\<rparr>"

definition sample_sprint :: "nat \<Rightarrow> JiraSprint" where
  "sample_sprint i =
     \<lparr>js_id = str_int (int i), js_name = ''S'', js_state = ''active'', js_start_at = None,
      js_end_at = None, js_complete_at = None\<rparr>"

section \<open>Credentials from the environment (\<^verbatim>\<open>graph/api/jira_issues.py\<close>)\<close>

text \<open>
  \<^verbatim>\<open>os.getenv\<close> is a map from variable names to values; a value is truthy when it is set
  and not empty.  \<^verbatim>\<open>json.loads\<close> is a parameter, \<open>None\<close> standing for a
  \<^verbatim>\<open>JSONDecodeError\<close>.  The four authentication classes are constructors.
\<close>

datatype auth =
    OAuthRefreshTokenAuth string string string
  | OAuthBearerAuth string
  | BasicApiTokenAuth string string
  | CookieAuth "(string \<times> string) list"

definition value_of :: "string option \<Rightarrow> string" where
  "value_of v = (case v of None \<Rightarrow> [] | Some s \<Rightarrow> s)"

definition truthy :: "string option \<Rightarrow> bool" where
  "truthy v \<longleftrightarrow> value_of v \<noteq> []"

fun str_values :: "(string \<times> json) list \<Rightarrow> (string \<times> string) list option" where
  "str_values [] = Some []"
| "str_values ((k, JStr v) # kvs) =
     (case str_values kvs of None \<Rightarrow> None | Some r \<Rightarrow> Some ((k, v) # r))"
| "str_values ((k, other) # kvs) = None"

definition auth_from_env ::
  "(string \<Rightarrow> json option) \<Rightarrow> (string \<Rightarrow> string option) \<Rightarrow> error + auth option" where
  "auth_from_env json_loads getenv =
     (let token = getenv ''ATLASSIAN_OAUTH_ACCESS_TOKEN'';
          refresh_token = getenv ''ATLASSIAN_OAUTH_REFRESH_TOKEN'';
          client_id = getenv ''ATLASSIAN_CLIENT_ID'';
          client_secret = getenv ''ATLASSIAN_CLIENT_SECRET'';
          email = getenv ''ATLASSIAN_EMAIL'';
          api_token = getenv ''ATLASSIAN_API_TOKEN'';
          cookies_json = getenv ''ATLASSIAN_COOKIES_JSON''
      in
      if truthy refresh_token \<and> truthy client_id \<and> truthy client_secret
      then Inr (Some (OAuthRefreshTokenAuth (value_of client_id) (value_of client_secret)
                        (value_of refresh_token)))
      else if truthy token
      then (if truthy client_secret \<and> strip (value_of token) = strip (value_of client_secret)
            then Inl (ValueError
              (''ATLASSIAN_OAUTH_ACCESS_TOKEN appears to be set to ATLASSIAN_CLIENT_SECRET; ''
               @ ''set an OAuth access token (not the client secret).''))
            else Inr (Some (OAuthBearerAuth (value_of token))))
      else if truthy email \<and> truthy api_token
      then Inr (Some (BasicApiTokenAuth (value_of email) (value_of api_token)))
      else if truthy cookies_json
      then (case json_loads (value_of cookies_json) of
              None \<Rightarrow> Inr None
            | Some (JDict kvs) \<Rightarrow>
                (case str_values kvs of
                   Some cookies \<Rightarrow> Inr (Some (CookieAuth cookies))
                 | None \<Rightarrow> Inr None)
            | Some other \<Rightarrow> Inr None)
      else Inr None)"

section \<open>The generated GraphQL issue models and the issue mapper\<close>

text \<open>
  The module \<^verbatim>\<open>graph/gen/jira_issues_api.py\<close>, after the template in
  \<^verbatim>\<open>tools/generate_jira_issue_models.py\<close>, and \<^verbatim>\<open>graph/mappers/jira_issues.py\<close>.
\<close>

record JiraIssueType =
  type_name :: string

record JiraStatus =
  status_name :: string

record ApiProject =
  project_key :: string
  project_cloud_id :: string

record JiraProjectField =
  field_project :: ApiProject

record JiraDateTimePickerField =
  date_time :: "string option"

record JiraSingleSelectUserPickerField =
  picker_user :: "ApiUser option"

record JiraIssueNode =
  node_key :: string
  issue_type :: JiraIssueType
  issue_status :: JiraStatus
  project_field :: JiraProjectField
  created_field :: JiraDateTimePickerField
  updated_field :: JiraDateTimePickerField
  resolution_date_field :: "JiraDateTimePickerField option"
  assignee_field :: "JiraSingleSelectUserPickerField option"
  reporter :: "ApiUser option"

definition JiraIssueType_from_dict :: "json \<Rightarrow> string \<Rightarrow> error + JiraIssueType" where
  "JiraIssueType_from_dict obj path =
     and_then (expect_dict obj path) (\<lambda>raw.
     and_then (expect_str (dict_get raw ''name'') (path @ ''.name'')) (\<lambda>n.
       Inr \<lparr>type_name = n\<rparr>))"

definition JiraStatus_from_dict :: "json \<Rightarrow> string \<Rightarrow> error + JiraStatus" where
  "JiraStatus_from_dict obj path =
     and_then (expect_dict obj path) (\<lambda>raw.
     and_then (expect_str (dict_get raw ''name'') (path @ ''.name'')) (\<lambda>n.
       Inr \<lparr>status_name = n\<rparr>))"

definition ApiProject_from_dict :: "json \<Rightarrow> string \<Rightarrow> error + ApiProject" where
  "ApiProject_from_dict obj path =
     and_then (expect_dict obj path) (\<lambda>raw.
     and_then (expect_str (dict_get raw ''key'') (path @ ''.key'')) (\<lambda>k.
     and_then (expect_str (dict_get raw ''cloudId'') (path @ ''.cloudId'')) (\<lambda>c.
       Inr \<lparr>project_key = k, project_cloud_id = c\<rparr>)))"

definition JiraProjectField_from_dict :: "json \<Rightarrow> string \<Rightarrow> error + JiraProjectField" where
  "JiraProjectField_from_dict obj path =
     and_then (expect_dict obj path) (\<lambda>raw.
     and_then (ApiProject_from_dict (dict_get raw ''project'') (path @ ''.project'')) (\<lambda>p.
       Inr \<lparr>field_project = p\<rparr>))"

definition JiraDateTimePickerField_from_dict ::
  "json \<Rightarrow> string \<Rightarrow> error + JiraDateTimePickerField" where
  "JiraDateTimePickerField_from_dict obj path =
     and_then (expect_dict obj path) (\<lambda>raw.
     and_then (expect_optional_str (dict_get raw ''dateTime'') (path @ ''.dateTime'')) (\<lambda>d.
       Inr \<lparr>date_time = d\<rparr>))"

definition JiraSingleSelectUserPickerField_from_dict ::
  "json \<Rightarrow> string \<Rightarrow> error + JiraSingleSelectUserPickerField" where
  "JiraSingleSelectUserPickerField_from_dict obj path =
     and_then (expect_dict obj path) (\<lambda>raw.
     let user_raw = dict_get raw ''user'' in
     and_then (if user_raw \<noteq> JNull
               then and_then (ApiUser_from_dict user_raw (path @ ''.user'')) (\<lambda>u. Inr (Some u))
               else Inr None) (\<lambda>u.
       Inr \<lparr>picker_user = u\<rparr>))"

text \<open>\<^verbatim>\<open>T.from_dict(raw, path) if raw is not None else None\<close>.\<close>

definition if_present ::
  "(json \<Rightarrow> string \<Rightarrow> error + 'a) \<Rightarrow> json \<Rightarrow> string \<Rightarrow> error + 'a option" where
  "if_present from_dict raw path =
     (if raw \<noteq> JNull then and_then (from_dict raw path) (\<lambda>v. Inr (Some v)) else Inr None)"

definition JiraIssueNode_from_dict :: "json \<Rightarrow> string \<Rightarrow> error + JiraIssueNode" where
  "JiraIssueNode_from_dict obj path =
     and_then (expect_dict obj path) (\<lambda>raw.
     and_then (expect_str (dict_get raw ''key'') (path @ ''.key'')) (\<lambda>k.
     and_then (JiraIssueType_from_dict (dict_get raw ''issueType'') (path @ ''.issueType'')) (\<lambda>ty.
     and_then (JiraStatus_from_dict (dict_get raw ''status'') (path @ ''.status'')) (\<lambda>st.
     and_then (JiraProjectField_from_dict (dict_get raw ''projectField'')
                 (path @ ''.projectField'')) (\<lambda>pf.
     and_then (JiraDateTimePickerField_from_dict (dict_get raw ''createdField'')
                 (path @ ''.createdField'')) (\<lambda>cf.
     and_then (JiraDateTimePickerField_from_dict (dict_get raw ''updatedField'')
                 (path @ ''.updatedField'')) (\<lambda>uf.
     and_then (if_present JiraDateTimePickerField_from_dict
                 (dict_get raw ''resolutionDateField'') (path @ ''.resolutionDateField'')) (\<lambda>rf.
     and_then (if_present JiraSingleSelectUserPickerField_from_dict
                 (dict_get raw ''assigneeField'') (path @ ''.assigneeField'')) (\<lambda>af.
     and_then (if_present ApiUser_from_dict (dict_get raw ''reporter'')
                 (path @ ''.reporter'')) (\<lambda>rp.
       Inr \<lparr>node_key = k, issue_type = ty, issue_status = st, project_field = pf,
            created_field = cf, updated_field = uf, resolution_date_field = rf,
            assignee_field = af, reporter = rp\<rparr>))))))))))"

definition parse_jira_issue_by_key :: "json \<Rightarrow> error + JiraIssueNode" where
  "parse_jira_issue_by_key data =
     and_then (expect_dict data ''data'') (\<lambda>root.
     let issue = dict_get root ''issueByKey'' in
     if issue = JNull then Inl (SerializationError ''Missing data.issueByKey'')
     else JiraIssueNode_from_dict issue ''data.issueByKey'')"

record JiraIssue =
  ji_cloud_id :: string
  ji_key :: string
  ji_project_key :: string
  ji_issue_type :: string
  ji_status :: string
  ji_created_at :: string
  ji_updated_at :: string
  ji_resolved_at :: "string option"
  ji_assignee :: "CanonicalUser option"
  ji_reporter :: "CanonicalUser option"
  ji_labels :: "string list"
  ji_components :: "string list"
  ji_story_points :: "real option"
  ji_sprint_ids :: "string list"

definition map_issue :: "string \<Rightarrow> JiraIssueNode \<Rightarrow> error + JiraIssue" where
  "map_issue cloud_id issue =
     (let cloud_id_clean = strip cloud_id in
      if cloud_id_clean = [] then Inl (ValueError ''cloud_id is required'')
      else
      and_then (require_non_empty (Some (node_key issue)) ''issue.key'') (\<lambda>issue_key.
      and_then (require_non_empty (Some (type_name (issue_type issue)))
                  ''issue.issueType.name'') (\<lambda>ity.
      and_then (require_non_empty (Some (status_name (issue_status issue)))
                  ''issue.status.name'') (\<lambda>status.
      let project = field_project (project_field issue) in
      and_then (require_non_empty (Some (project_key project))
                  ''issue.projectField.project.key'') (\<lambda>pkey.
      and_then (require_non_empty (Some (project_cloud_id project))
                  ''issue.projectField.project.cloudId'') (\<lambda>pcloud.
      if pcloud \<noteq> cloud_id_clean
      then Inl (ValueError ''issue.projectField.project.cloudId does not match cloud_id'')
      else
      and_then (require_non_empty (date_time (created_field issue))
                  ''issue.createdField.dateTime'') (\<lambda>created_at.
      and_then (require_non_empty (date_time (updated_field issue))
                  ''issue.updatedField.dateTime'') (\<lambda>updated_at.
      let resolved_at =
            (case resolution_date_field issue of
               None \<Rightarrow> None
             | Some f \<Rightarrow> (case date_time f of
                            None \<Rightarrow> None
                          | Some d \<Rightarrow> if d \<noteq> [] then Some (strip d) else None));
          assignee_user =
            (case assignee_field issue of None \<Rightarrow> None | Some f \<Rightarrow> picker_user f)
      in
      and_then (map_user assignee_user ''issue.assigneeField.user'') (\<lambda>assignee.
      and_then (map_user (reporter issue) ''issue.reporter'') (\<lambda>rep.
        Inr \<lparr>ji_cloud_id = pcloud, ji_key = issue_key, ji_project_key = pkey,
             ji_issue_type = ity, ji_status = status, ji_created_at = created_at,
             ji_updated_at = updated_at, ji_resolved_at = resolved_at,
             ji_assignee = assignee, ji_reporter = rep, ji_labels = [],
             ji_components = [], ji_story_points = None, ji_sprint_ids = []\<rparr>))))))))))"

section \<open>Fetching one issue (\<^verbatim>\<open>graph/api/jira_issues.py\<close>)\<close>

definition get_issue_by_key :: "execute \<Rightarrow> string \<Rightarrow> string \<Rightarrow> error + JiraIssue" where
  "get_issue_by_key execute cloud_id issue_key =
     (let cloud_id_clean = strip cloud_id in
      if cloud_id_clean = [] then Inl (ValueError ''cloud_id is required'')
      else
      let key_clean = strip issue_key in
      if key_clean = [] then Inl (ValueError ''issue_key is required'')
      else
      and_then (execute 0 ''JiraIssueByKey''
                  [(''cloudId'', JStr cloud_id_clean), (''key'', JStr key_clean)]) (\<lambda>result.
      and_then (parse_or_operation_error parse_jira_issue_by_key result) (\<lambda>issue.
        map_issue cloud_id_clean issue)))"

text \<open>
  Modelled from the spec: the part of \<^verbatim>\<open>GraphQLClient.execute\<close>
  (\<^verbatim>\<open>graph/client.py\<close>, not among the sources) that turns a decoded response body into
  its result.  Section 4.3 step 6: a response with errors but no data is escalated to an
  operation error carrying the error list, and a response with neither data nor errors is
  a serialization error.  Sections 7 and 8: a response that carried errors is an operation
  error, which carries the error list and any partial data.  A response with data and no
  errors is returned as a \<^verbatim>\<open>GraphQLResult\<close>.
\<close>

definition response_result ::
  "json option \<Rightarrow> GraphQLErrorItem list option \<Rightarrow> json option \<Rightarrow> error + GraphQLResult" where
  "response_result data_opt errors_opt extensions_opt =
     (case (data_opt, errors_opt) of
        (_, Some (e # es)) \<Rightarrow> Inl (GraphQLOperationError (e # es) data_opt)
      | (None, _) \<Rightarrow> Inl (SerializationError ''GraphQL response has neither data nor errors'')
      | (Some d, _) \<Rightarrow>
          Inr \<lparr>result_data = Some d, result_errors = errors_opt,
               result_extensions = extensions_opt\<rparr>)"

section \<open>The Retry-After header (\<^verbatim>\<open>atlassian_graphql/retry.py\<close>)\<close>

text \<open>
  A \<^verbatim>\<open>datetime\<close> is its wall-clock reading, in microseconds since
  0001-01-01T00:00:00, with the offset of its time zone from UTC in microseconds
  (\<open>None\<close> for a naive datetime).  The two parsers of the standard library,
  \<^verbatim>\<open>datetime.fromisoformat\<close> and \<^verbatim>\<open>email.utils.parsedate_to_datetime\<close>, are
  parameters of \<open>parse_retry_after\<close>; \<open>None\<close> stands for any exception they raise.
  The section after this one gives the two parsers that the parameters stand for.
\<close>

record datetime =
  wall :: int
  utcoffset :: "int option"

definition datetime_max :: int where
  "datetime_max = 315537897599999999"

text \<open>
  \<^verbatim>\<open>if parsed.tzinfo is None: parsed = parsed.replace(tzinfo=timezone.utc)\<close> followed by
  \<^verbatim>\<open>parsed.astimezone(timezone.utc)\<close>, which raises \<^verbatim>\<open>OverflowError\<close> when the UTC
  reading lies outside \<^verbatim>\<open>datetime.min\<close> .. \<^verbatim>\<open>datetime.max\<close>.
\<close>

definition as_utc :: "datetime \<Rightarrow> datetime option" where
  "as_utc parsed =
     (let off = (case utcoffset parsed of None \<Rightarrow> 0 | Some d \<Rightarrow> d);
          utc = wall parsed - off
      in if 0 \<le> utc \<and> utc \<le> datetime_max then Some \<lparr>wall = utc, utcoffset = Some 0\<rparr>
         else None)"

definition endswith_Z :: "string \<Rightarrow> bool" where
  "endswith_Z s \<longleftrightarrow> s \<noteq> [] \<and> last s = CHR ''Z''"

definition parse_retry_after ::
  "(string \<Rightarrow> datetime option) \<Rightarrow> (string \<Rightarrow> datetime option) \<Rightarrow> string option
     \<Rightarrow> error + (datetime \<times> string)" where
  "parse_retry_after fromisoformat parsedate_to_datetime header_value =
     (case header_value of
        None \<Rightarrow> Inl (ValueError ''Retry-After header is missing'')
      | Some h \<Rightarrow>
          let candidate = strip h in
          if candidate = [] then Inl (ValueError ''Retry-After header is empty'')
          else
          let cleaned = (if endswith_Z candidate then butlast candidate @ ''+00:00''
                         else candidate)
          in
          case Option.bind (fromisoformat cleaned) as_utc of
            Some parsed \<Rightarrow> Inr (parsed, ''rfc3339'')
          | None \<Rightarrow>
              (case Option.bind (parsedate_to_datetime candidate) as_utc of
                 Some parsed \<Rightarrow> Inr (parsed, ''http-date'')
               | None \<Rightarrow> Inl (ValueError
                   (''Unable to parse Retry-After header: '' @ candidate))))"

section \<open>The two date formats of the standard library\<close>

text \<open>
  \<^verbatim>\<open>datetime.fromisoformat\<close> and \<^verbatim>\<open>email.utils.parsedate_to_datetime\<close> belong to the
  Python standard library, not to the repository.  What follows is a model of the part of
  each that \<^verbatim>\<open>parse_retry_after\<close> needs for timestamps with full seconds, after the
  documentation of the two functions: the first reads
  \<^verbatim>\<open>YYYY-MM-DD\<close>, one separator character, \<^verbatim>\<open>HH:MM:SS\<close> and an optional offset
  \<^verbatim>\<open>+HH:MM\<close> or \<^verbatim>\<open>-HH:MM\<close>; the second reads an optional day name ending in a comma,
  then \<^verbatim>\<open>DD Mon YYYY HH:MM:SS\<close> and a zone, which is \<^verbatim>\<open>GMT\<close>, \<^verbatim>\<open>UT\<close>, \<^verbatim>\<open>UTC\<close>,
  \<^verbatim>\<open>Z\<close>, \<^verbatim>\<open>+HHMM\<close> or \<^verbatim>\<open>-HHMM\<close>, where \<^verbatim>\<open>-0000\<close> gives a naive datetime.
  Both build the datetime from the fields they read, with the calendar arithmetic of the
  \<^verbatim>\<open>datetime\<close> constructor; every other input is rejected, as an exception of the
  library would be.
\<close>

definition is_digit :: "char \<Rightarrow> bool" where
  "is_digit c \<longleftrightarrow> 48 \<le> (of_char c :: nat) \<and> (of_char c :: nat) \<le> 57"

definition read_digits :: "string \<Rightarrow> nat option" where
  "read_digits s =
     (if s \<noteq> [] \<and> list_all is_digit s
      then Some (foldl (\<lambda>n c. 10 * n + ((of_char c :: nat) - 48)) 0 s)
      else None)"

definition is_leap :: "nat \<Rightarrow> bool" where
  "is_leap y \<longleftrightarrow> y mod 4 = 0 \<and> (y mod 100 \<noteq> 0 \<or> y mod 400 = 0)"

definition days_in_month :: "nat \<Rightarrow> nat \<Rightarrow> nat" where
  "days_in_month y m =
     (if m = 2 then (if is_leap y then 29 else 28)
      else if m \<in> {4, 6, 9, 11} then 30 else 31)"

definition days_before_year :: "nat \<Rightarrow> nat" where
  "days_before_year y = (y - 1) * 365 + (y - 1) div 4 - (y - 1) div 100 + (y - 1) div 400"

definition days_before_month :: "nat \<Rightarrow> nat \<Rightarrow> nat" where
  "days_before_month y m = sum_list (map (days_in_month y) [1..<m])"

text \<open>
  \<^verbatim>\<open>datetime(year, month, day, hour, minute, second, tzinfo=...)\<close>: a \<^verbatim>\<open>ValueError\<close>
  for a field out of range, and otherwise the reading in microseconds since
  0001-01-01T00:00:00.
\<close>

definition make_datetime ::
  "nat \<Rightarrow> nat \<Rightarrow> nat \<Rightarrow> nat \<Rightarrow> nat \<Rightarrow> nat \<Rightarrow> int option \<Rightarrow> datetime option" where
  "make_datetime y m d hh mm ss off =
     (if 1 \<le> y \<and> y \<le> 9999 \<and> 1 \<le> m \<and> m \<le> 12 \<and> 1 \<le> d \<and> d \<le> days_in_month y m
         \<and> hh < 24 \<and> mm < 60 \<and> ss < 60
      then Some \<lparr>wall = int ((((days_before_year y + days_before_month y m + d - 1) * 24 + hh)
                          * 60 + mm) * 60 + ss) * 1000000,
                 utcoffset = off\<rparr>
      else None)"

text \<open>A UTC offset of \<open>hh\<close> hours and \<open>mm\<close> minutes with its sign, in microseconds.\<close>

definition signed_offset :: "char \<Rightarrow> nat \<Rightarrow> nat \<Rightarrow> int" where
  "signed_offset sign hh mm =
     (if sign = CHR ''-'' then - 1 else 1) * int (hh * 3600 + mm * 60) * 1000000"

definition iso_offset :: "string \<Rightarrow> int option option" where
  "iso_offset s =
     (if s = [] then Some None
      else if length s = 6 \<and> (s ! 0 = CHR ''+'' \<or> s ! 0 = CHR ''-'') \<and> s ! 3 = CHR '':''
      then (case (read_digits (take 2 (drop 1 s)), read_digits (drop 4 s)) of
              (Some hh, Some mm) \<Rightarrow>
                if hh < 24 \<and> mm < 60 then Some (Some (signed_offset (s ! 0) hh mm)) else None
            | _ \<Rightarrow> None)
      else None)"

definition datetime_fromisoformat :: "string \<Rightarrow> datetime option" where
  "datetime_fromisoformat s =
     (if 19 \<le> length s \<and> s ! 4 = CHR ''-'' \<and> s ! 7 = CHR ''-'' \<and> s ! 13 = CHR '':''
         \<and> s ! 16 = CHR '':''
      then (case (read_digits (take 4 s), read_digits (take 2 (drop 5 s)),
                  read_digits (take 2 (drop 8 s)), read_digits (take 2 (drop 11 s)),
                  read_digits (take 2 (drop 14 s)), read_digits (take 2 (drop 17 s)),
                  iso_offset (drop 19 s)) of
              (Some y, Some m, Some d, Some hh, Some mm, Some ss, Some off) \<Rightarrow>
                make_datetime y m d hh mm ss off
            | _ \<Rightarrow> None)
      else None)"

text \<open>\<^verbatim>\<open>str.split()\<close>: the maximal runs of characters that are not white space.\<close>

definition split_words :: "string \<Rightarrow> string list" where
  "split_words s =
     filter (\<lambda>w. w \<noteq> [])
       (foldr (\<lambda>c ws. if is_space c then [] # ws
                       else (case ws of [] \<Rightarrow> [[c]] | w # r \<Rightarrow> (c # w) # r)) s [[]])"

definition month_number :: "string \<Rightarrow> nat option" where
  "month_number name =
     map_of (zip [''jan'', ''feb'', ''mar'', ''apr'', ''may'', ''jun'', ''jul'', ''aug'',
                  ''sep'', ''oct'', ''nov'', ''dec''] [1..<13]) (lower name)"

definition http_zone :: "string \<Rightarrow> int option option" where
  "http_zone z =
     (if z \<in> {''GMT'', ''UT'', ''UTC'', ''Z''} then Some (Some 0)
      else if length z = 5 \<and> (z ! 0 = CHR ''+'' \<or> z ! 0 = CHR ''-'')
      then (case read_digits (drop 1 z) of
              Some n \<Rightarrow>
                if z = ''-0000'' then Some None
                else if (n div 100) * 3600 + (n mod 100) * 60 < 86400
                then Some (Some (signed_offset (z ! 0) (n div 100) (n mod 100)))
                else None
            | None \<Rightarrow> None)
      else None)"

definition http_time :: "string \<Rightarrow> (nat \<times> nat \<times> nat) option" where
  "http_time t =
     (if length t = 8 \<and> t ! 2 = CHR '':'' \<and> t ! 5 = CHR '':''
      then (case (read_digits (take 2 t), read_digits (take 2 (drop 3 t)),
                  read_digits (drop 6 t)) of
              (Some hh, Some mm, Some ss) \<Rightarrow> Some (hh, mm, ss)
            | _ \<Rightarrow> None)
      else None)"

definition email_parsedate_to_datetime :: "string \<Rightarrow> datetime option" where
  "email_parsedate_to_datetime s =
     (let ws = split_words s;
          ws' = (if ws \<noteq> [] \<and> hd ws \<noteq> [] \<and> last (hd ws) = CHR '','' then tl ws else ws)
      in case ws' of
           [dd, mon, yyyy, time, zone] \<Rightarrow>
             (case (read_digits dd, month_number mon, read_digits yyyy, http_time time,
                    http_zone zone) of
                (Some d, Some m, Some y, Some (hh, mm, ss), Some off) \<Rightarrow>
                  if length dd \<le> 2 \<and> length yyyy = 4 then make_datetime y m d hh mm ss off
                  else None
              | _ \<Rightarrow> None)
         | _ \<Rightarrow> None)"

section \<open>Sample environment and responses\<close>

text \<open>
  A \<^verbatim>\<open>json.loads\<close> that rejects every input (no cookie variable is set in the sample
  environments), the response body of the unit test of \<^verbatim>\<open>get_issue_by_key\<close>, an error
  list, and servers built with \<open>response_result\<close>: the response of the unit test, the
  same with errors added, an issue without its fields together with errors, and errors
  without data.  The last server hands the incomplete issue and the errors to the caller
  as a \<^verbatim>\<open>GraphQLResult\<close>.
\<close>

definition no_json :: "string \<Rightarrow> json option" where
  "no_json s = None"

definition sample_issue_data :: json where
  "sample_issue_data =
     JDict [(''issueByKey'', JDict [
       (''key'', JStr ''A-1''),
       (''issueType'', JDict [(''name'', JStr ''Bug'')]),
       (''status'', JDict [(''name'', JStr ''Done'')]),
       (''projectField'', JDict [(''project'',
          JDict [(''key'', JStr ''A''), (''cloudId'', JStr ''cloud-123'')])]),
       (''createdField'', JDict [(''dateTime'', JStr ''2021-01-01T00:00:00Z'')]),
       (''updatedField'', JDict [(''dateTime'', JStr ''2021-01-02T00:00:00Z'')]),
       (''resolutionDateField'', JDict [(''dateTime'', JStr ''2021-01-03T00:00:00Z'')]),
       (''assigneeField'', JDict [(''user'',
          JDict [(''accountId'', JStr ''u1''), (''name'', JStr ''User One'')])]),
       (''reporter'', JDict [(''accountId'', JStr ''u2''), (''name'', JStr ''User Two'')])])]"



definition sample_unit_test_server :: execute where
  "sample_unit_test_server k op vars = response_result (Some sample_issue_data) None None"





definition sample_issue :: JiraIssue where
  "sample_issue =
     \<lparr>ji_cloud_id = ''cloud-123'', ji_key = ''A-1'', ji_project_key = ''A'',
      ji_issue_type = ''Bug'', ji_status = ''Done'',
      ji_created_at = ''2021-01-01T00:00:00Z'', ji_updated_at = ''2021-01-02T00:00:00Z'',
      ji_resolved_at = Some ''2021-01-03T00:00:00Z'',
      ji_assignee = Some \<lparr>cu_account_id = ''u1'', cu_display_name = ''User One'',
                           cu_email = None\<rparr>,
      ji_reporter = Some \<lparr>cu_account_id = ''u2'', cu_display_name = ''User Two'',
                           cu_email = None\<rparr>,
      ji_labels = [], ji_components = [], ji_story_points = None, ji_sprint_ids = []\<rparr>"

section \<open>Properties of the token bucket\<close>

lemma refill_locked_ok: "bucket_ok b \<Longrightarrow> bucket_ok (refill_locked t b)"
  by (auto simp: bucket_ok_def refill_locked_def Let_def)

lemma deduct_ok:
  "bucket_ok b \<Longrightarrow> 0 < cost \<Longrightarrow> cost \<le> tokens b \<Longrightarrow> bucket_ok (b\<lparr>tokens := tokens b - cost\<rparr>)"
  by (simp add: bucket_ok_def)

lemma consume_loop_ok:
  "bucket_ok b \<Longrightarrow> 0 < cost \<Longrightarrow>
   bucket_ok (fst (snd (consume_loop n now sleeper cost mw dl waited b w)))"
proof (induction n arbitrary: waited b w)
  case 0
  then show ?case by simp
next
  case (Suc n)
  obtain t w1 where n1: "now w = (t, w1)" by (cases "now w")
  obtain t2 w2 where n2: "now w1 = (t2, w2)" by (cases "now w1")
  have r: "bucket_ok (refill_locked t b)"
    using Suc.prems(1) by (rule refill_locked_ok)
  show ?case
  proof (cases "cost \<le> tokens (refill_locked t b)")
    case True
    then show ?thesis
      using deduct_ok [OF r Suc.prems(2)] by (simp add: n1 Let_def)
  next
    case False
    then show ?thesis
      using r Suc.IH [OF r Suc.prems(2)] by (simp add: n1 n2 Let_def)
  qed
qed

lemma consume_ok:
  "bucket_ok b \<Longrightarrow> bucket_ok (fst (snd (consume n now sleeper cost mw b w)))"
  by (auto simp: consume_def consume_loop_ok split: prod.splits)

lemma consume_all_ok:
  "bucket_ok b \<Longrightarrow> bucket_ok (fst (snd (consume_all now sleeper cs b w)))"
proof (induction cs arbitrary: b w)
  case Nil
  then show ?case by simp
next
  case (Cons c cs)
  obtain n cost mw where c: "c = (n, cost, mw)" by (cases c)
  obtain r b' w' where s: "consume n now sleeper cost mw b w = (r, b', w')"
    by (cases "consume n now sleeper cost mw b w")
  have "bucket_ok b'"
    using consume_ok [OF Cons.prems, of n now sleeper cost mw w] s by simp
  from Cons.IH [OF this, of w'] show ?case
    by (cases "consume_all now sleeper cs b' w'") (simp add: c s)
qed

lemma TokenBucket_init_ok:
  "TokenBucket_init cap rate now w = Inr (b, w') \<Longrightarrow> bucket_ok b"
  by (auto simp: TokenBucket_init_def bucket_ok_def split: if_splits prod.splits)

lemma refill_locked_fields [simp]:
  "capacity (refill_locked t b) = capacity b"
  "refill_rate_per_sec (refill_locked t b) = refill_rate_per_sec b"
  by (simp_all add: refill_locked_def Let_def)

lemma consume_loop_capacity:
  "capacity (fst (snd (consume_loop n now sleeper cost mw dl waited b w))) = capacity b"
proof (induction n arbitrary: waited b w)
  case 0
  then show ?case by simp
next
  case (Suc n)
  show ?case
    by (cases "now w"; cases "now (snd (now w))") (simp add: Let_def Suc.IH)
qed

lemma consume_capacity:
  "capacity (fst (snd (consume n now sleeper cost mw b w))) = capacity b"
  by (cases "now w") (simp add: consume_def consume_loop_capacity)

lemma consume_all_capacity:
  "capacity (fst (snd (consume_all now sleeper cs b w))) = capacity b"
proof (induction cs arbitrary: b w)
  case Nil
  then show ?case by simp
next
  case (Cons c cs)
  obtain n cost mw where c: "c = (n, cost, mw)" by (cases c)
  obtain r b' w' where s: "consume n now sleeper cost mw b w = (r, b', w')"
    by (cases "consume n now sleeper cost mw b w")
  have "capacity b' = capacity b"
    using consume_capacity [of n now sleeper cost mw b w] s by simp
  with Cons.IH [of b' w'] show ?case
    by (cases "consume_all now sleeper cs b' w'") (simp add: c s)
qed

text \<open>
  Claim C1.  A bucket constructed with a positive capacity and a positive refill rate
  keeps \<open>0 \<le> tokens \<le> capacity\<close> through every sequence of \<^verbatim>\<open>consume\<close> calls,
  whatever the injected clock and sleeper do, whether a call returns, raises or is still
  in its loop, and (more than the claim asks) whatever the costs are: the refill clamps
  the count to the capacity and a deduction happens only when \<open>tokens \<ge> cost\<close>.
\<close>

theorem token_count_within_bounds:
  assumes "TokenBucket_init cap rate now w = Inr (b, w')"
  shows "0 \<le> tokens (fst (snd (consume_all now sleeper calls b w')))
       \<and> tokens (fst (snd (consume_all now sleeper calls b w'))) \<le> cap"
proof -
  have ok: "bucket_ok b"
    using assms by (rule TokenBucket_init_ok)
  have cap: "capacity b = cap"
    using assms by (auto simp: TokenBucket_init_def split: if_splits prod.splits)
  have "bucket_ok (fst (snd (consume_all now sleeper calls b w')))"
    using ok by (rule consume_all_ok)
  then show ?thesis
    by (simp add: bucket_ok_def consume_all_capacity cap)
qed

theorem token_count_within_bounds_witness:
  "TokenBucket_init 10 5 fake_now 0
     = Inr (\<lparr>capacity = 10, refill_rate_per_sec = 5, tokens = 10, last_refill = 0\<rparr>, 0)
   \<and> 0 \<le> tokens (fst (snd (consume_all fake_now fake_sleeper [(3, 7, 1), (3, 7, 2), (1, 2, 0)]
          \<lparr>capacity = 10, refill_rate_per_sec = 5, tokens = 10, last_refill = 0\<rparr> 0)))
   \<and> tokens (fst (snd (consume_all fake_now fake_sleeper [(3, 7, 1), (3, 7, 2), (1, 2, 0)]
          \<lparr>capacity = 10, refill_rate_per_sec = 5, tokens = 10, last_refill = 0\<rparr> 0))) \<le> 10"
proof -
  have h: "TokenBucket_init 10 5 fake_now (0::real)
     = Inr (\<lparr>capacity = 10, refill_rate_per_sec = 5, tokens = 10, last_refill = 0\<rparr>, 0)"
    by (simp add: TokenBucket_init_def fake_now_def)
  show ?thesis
    using h token_count_within_bounds [OF h, of fake_sleeper "[(3, 7, 1), (3, 7, 2), (1, 2, 0)]"]
    by simp
qed






lemma refill_locked_tokens_le:
  assumes "0 < refill_rate_per_sec b" "t' - last_refill b \<le> d" "0 \<le> d"
  shows "tokens (refill_locked t' b) \<le> tokens b + d * refill_rate_per_sec b"
proof (cases "t' - last_refill b > 0")
  case True
  have "(t' - last_refill b) * refill_rate_per_sec b \<le> d * refill_rate_per_sec b"
    using assms by (simp add: mult_right_mono)
  then show ?thesis using True by (simp add: refill_locked_def Let_def min_def)
next
  case False
  have "0 \<le> d * refill_rate_per_sec b" using assms by simp
  then show ?thesis using False by (simp add: refill_locked_def Let_def)
qed

lemma refill_locked_last_refill_ge: "t \<le> last_refill (refill_locked t b)"
  by (simp add: refill_locked_def Let_def)

text \<open>
  Claim C5.  A call with cost 0 returns 0 and changes neither the bucket nor the world.
  With the deterministic clock, when the tokens on entry (after the refill) do not cover
  the cost and the wait they need is longer than \<^verbatim>\<open>max_wait_seconds\<close>, the call sleeps
  up to the deadline fixed at entry, no longer, and raises the local rate-limit error with
  the cost, the wait computed in its last iteration and \<^verbatim>\<open>max_wait_seconds\<close>.
\<close>

theorem consume_zero_cost_and_deadline:
  assumes "0 < refill_rate_per_sec b" and "0 < cost"
    and "tokens (refill_locked t b) < cost"
    and "mw < (cost - tokens (refill_locked t b)) / refill_rate_per_sec b"
  shows "consume n now sleeper 0 mw0 b0 w = (Some (Inr 0), b0, w)
    \<and> (\<exists>wait b'. consume (Suc (Suc n)) fake_now fake_sleeper cost mw b t
          = (Some (Inl (LocalRateLimitError cost wait mw)), b', t + max 0 mw)
        \<and> wait = (cost - tokens b') / refill_rate_per_sec b \<and> 0 < wait)"
proof -
  let ?b1 = "refill_locked t b"
  let ?r = "refill_rate_per_sec b"
  let ?w1 = "(cost - tokens ?b1) / ?r"
  have w1: "0 < ?w1" using assms by simp
  have zero: "consume n now sleeper 0 mw0 b0 w = (Some (Inr 0), b0, w)"
    by (simp add: consume_def)
  show ?thesis
  proof (cases "mw \<le> 0")
    case True
    have "consume (Suc (Suc n)) fake_now fake_sleeper cost mw b t
          = (Some (Inl (LocalRateLimitError cost ?w1 mw)), ?b1, t + max 0 mw)"
      using assms True by (simp add: consume_def fake_now_def Let_def max_def)
    with w1 zero show ?thesis by simp
  next
    case False
    let ?b2 = "refill_locked (t + mw) ?b1"
    let ?w2 = "(cost - tokens ?b2) / ?r"
    have "(t + mw) - last_refill ?b1 \<le> mw"
      using refill_locked_last_refill_ge [of t b] by simp
    then have "tokens ?b2 \<le> tokens ?b1 + mw * ?r"
      using refill_locked_tokens_le [of ?b1 "t + mw" mw] assms(1) False by simp
    moreover have "mw * ?r < cost - tokens ?b1"
      using assms(1,4) by (simp add: pos_less_divide_eq)
    ultimately have lt2: "tokens ?b2 < cost" by simp
    then have w2: "0 < ?w2" using assms(1) by simp
    have "consume (Suc (Suc n)) fake_now fake_sleeper cost mw b t
          = (Some (Inl (LocalRateLimitError cost ?w2 mw)), ?b2, t + max 0 mw)"
      using assms False lt2 w1
      by (simp add: consume_def fake_now_def fake_sleeper_def Let_def max_def min_def)
    with w2 zero show ?thesis by simp
  qed
qed

theorem consume_zero_cost_and_deadline_witness:
  "consume 0 fake_now fake_sleeper 0 1
      \<lparr>capacity = 10, refill_rate_per_sec = 5, tokens = 0, last_refill = 0\<rparr> 0
    = (Some (Inr 0), \<lparr>capacity = 10, refill_rate_per_sec = 5, tokens = 0, last_refill = 0\<rparr>, 0)
   \<and> consume 2 fake_now fake_sleeper 5 (1 / 2)
      \<lparr>capacity = 10, refill_rate_per_sec = 5, tokens = 0, last_refill = 0\<rparr> 0
    = (Some (Inl (LocalRateLimitError 5 (1 / 2) (1 / 2))),
       \<lparr>capacity = 10, refill_rate_per_sec = 5, tokens = 5 / 2, last_refill = 1 / 2\<rparr>, 1 / 2)"
proof -
  let ?b = "\<lparr>capacity = 10, refill_rate_per_sec = 5, tokens = 0, last_refill = 0\<rparr>"
  have r: "refill_locked 0 ?b = ?b"
    by (simp add: refill_locked_def)
  have "\<exists>wait b'. consume (Suc (Suc 0)) fake_now fake_sleeper 5 (1 / 2) ?b 0
          = (Some (Inl (LocalRateLimitError 5 wait (1 / 2))), b', 0 + max 0 (1 / 2))"
    using consume_zero_cost_and_deadline [of ?b 5 0 "1 / 2" 0 fake_now fake_sleeper 1 ?b 0]
    by (simp add: r) blast
  then show ?thesis
    by (simp add: consume_def fake_now_def fake_sleeper_def refill_locked_def Let_def
        eval_nat_numeral)
qed

section \<open>Properties of the REST models and iterators\<close>

lemma and_then_simps [simp]:
  "and_then (Inl e) f = Inl e"
  "and_then (Inr x) f = f x"
  by (simp_all add: and_then_def)

lemma and_then_Inl:
  "and_then m f = Inl e \<Longrightarrow> m = Inl e \<or> (\<exists>x. m = Inr x \<and> f x = Inl e)"
  by (cases m) simp_all

lemma optional_field_absent:
  "field_absent raw key \<Longrightarrow> optional_field ex raw key p = Inr None"
  by (simp add: optional_field_def field_absent_def)

lemma optional_int_ok:
  "field_ok is_int_json raw key \<Longrightarrow> \<exists>v. optional_field expect_int raw key p = Inr v"
  by (cases "dict_get raw key") (auto simp: optional_field_def field_ok_def field_absent_def)

lemma optional_bool_ok:
  "field_ok is_bool_json raw key \<Longrightarrow> \<exists>v. optional_field expect_bool raw key p = Inr v"
  by (cases "dict_get raw key") (auto simp: optional_field_def field_ok_def field_absent_def)

lemma optional_int_wrong:
  "field_wrong is_int_json raw key \<Longrightarrow> optional_field expect_int raw key p
     = Inl (SerializationError (''Expected integer at '' @ p @ ''.'' @ key))"
  by (cases "dict_get raw key") (auto simp: optional_field_def field_wrong_def field_absent_def)

lemma optional_bool_wrong:
  "field_wrong is_bool_json raw key \<Longrightarrow> optional_field expect_bool raw key p
     = Inl (SerializationError (''Expected boolean at '' @ p @ ''.'' @ key))"
  by (cases "dict_get raw key") (auto simp: optional_field_def field_wrong_def field_absent_def)

lemma optional_int_Inl:
  "optional_field expect_int raw key p = Inl e \<Longrightarrow> names_path e p"
  by (cases "dict_get raw key") (auto simp: optional_field_def split: if_splits)

lemma optional_str_Inl:
  "optional_field expect_str raw key p = Inl e \<Longrightarrow> names_path e p"
  by (cases "dict_get raw key") (auto simp: optional_field_def split: if_splits)

lemma expect_dict_Inl:
  "expect_dict obj p = Inl e \<Longrightarrow> names_path e p"
  by (cases obj) auto

lemma Sprint_from_dict_Inl:
  "Sprint_from_dict obj p = Inl e \<Longrightarrow> names_path e p"
  unfolding Sprint_from_dict_def
  by (auto dest!: and_then_Inl intro: optional_int_Inl optional_str_Inl expect_dict_Inl)

lemma Board_from_dict_Inl:
  "Board_from_dict obj p = Inl e \<Longrightarrow> names_path e p"
  unfolding Board_from_dict_def
  by (auto dest!: and_then_Inl intro: optional_int_Inl optional_str_Inl expect_dict_Inl)

lemma from_dict_each_fail:
  assumes "i < length items"
    and "\<forall>j<i. \<exists>v. fd (items ! j) (element_path path (idx + j)) = Inr v"
    and "fd (items ! i) (element_path path (idx + i)) = Inl e"
  shows "from_dict_each fd path idx items = Inl e"
  using assms
proof (induction items arbitrary: i idx)
  case Nil
  then show ?case by simp
next
  case (Cons a items)
  show ?case
  proof (cases i)
    case 0
    with Cons.prems show ?thesis by (simp add: element_path_def)
  next
    case (Suc i')
    from Cons.prems(2) Suc obtain v where v: "fd a (element_path path idx) = Inr v"
      by fastforce
    have "from_dict_each fd path (Suc idx) items = Inl e"
    proof (rule Cons.IH [of i'])
      show "i' < length items" using Cons.prems(1) Suc by simp
      show "\<forall>j<i'. \<exists>v. fd (items ! j) (element_path path (Suc idx + j)) = Inr v"
      proof (intro allI impI)
        fix j assume "j < i'"
        then have "Suc j < i" using Suc by simp
        with Cons.prems(2) show "\<exists>v. fd (items ! j) (element_path path (Suc idx + j)) = Inr v"
          by fastforce
      qed
      show "fd (items ! i') (element_path path (Suc idx + i')) = Inl e"
        using Cons.prems(3) Suc by simp
    qed
    with v show ?thesis by (simp add: element_path_def)
  qed
qed

lemma page_startAt_wrong:
  "field_wrong is_int_json raw ''startAt'' \<Longrightarrow> Page_from_dict fd (JDict raw) path
     = Inl (SerializationError (''Expected integer at '' @ path @ ''.startAt''))"
  by (simp add: Page_from_dict_def optional_int_wrong)

lemma page_maxResults_wrong:
  assumes "field_ok is_int_json raw ''startAt''" "field_wrong is_int_json raw ''maxResults''"
  shows "Page_from_dict fd (JDict raw) path
     = Inl (SerializationError (''Expected integer at '' @ path @ ''.maxResults''))"
proof -
  obtain sa where "optional_field expect_int raw ''startAt'' path = Inr sa"
    using optional_int_ok [OF assms(1)] by blast
  then show ?thesis
    by (simp add: Page_from_dict_def optional_int_wrong [OF assms(2)])
qed

lemma page_isLast_wrong:
  assumes "field_ok is_int_json raw ''startAt''" "field_ok is_int_json raw ''maxResults''"
    "field_wrong is_bool_json raw ''isLast''"
  shows "Page_from_dict fd (JDict raw) path
     = Inl (SerializationError (''Expected boolean at '' @ path @ ''.isLast''))"
proof -
  obtain sa where "optional_field expect_int raw ''startAt'' path = Inr sa"
    using optional_int_ok [OF assms(1)] by blast
  moreover obtain mr where "optional_field expect_int raw ''maxResults'' path = Inr mr"
    using optional_int_ok [OF assms(2)] by blast
  ultimately show ?thesis
    by (simp add: Page_from_dict_def optional_bool_wrong [OF assms(3)])
qed

lemma page_header:
  assumes "page_header_ok raw"
  obtains sa mr il where "Page_from_dict fd (JDict raw) path =
     and_then (if dict_get raw ''values'' \<noteq> JNull
               then expect_list (dict_get raw ''values'') (path @ ''.values'') else Inr [])
       (\<lambda>values_list. and_then (from_dict_each fd path 0 values_list)
          (\<lambda>vs. Inr \<lparr>start_at = sa, max_results = mr, is_last = il, page_values = vs\<rparr>))"
proof -
  obtain sa where "optional_field expect_int raw ''startAt'' path = Inr sa"
    using optional_int_ok assms unfolding page_header_ok_def by blast
  moreover obtain mr where "optional_field expect_int raw ''maxResults'' path = Inr mr"
    using optional_int_ok assms unfolding page_header_ok_def by blast
  moreover obtain il where "optional_field expect_bool raw ''isLast'' path = Inr il"
    using optional_bool_ok assms unfolding page_header_ok_def by blast
  ultimately have "Page_from_dict fd (JDict raw) path =
     and_then (if dict_get raw ''values'' \<noteq> JNull
               then expect_list (dict_get raw ''values'') (path @ ''.values'') else Inr [])
       (\<lambda>values_list. and_then (from_dict_each fd path 0 values_list)
          (\<lambda>vs. Inr \<lparr>start_at = sa, max_results = mr, is_last = il, page_values = vs\<rparr>))"
    by (simp add: Page_from_dict_def Let_def)
  then show ?thesis by (rule that)
qed

lemma page_values_wrong:
  assumes "page_header_ok raw" "field_wrong is_list_json raw ''values''"
  shows "Page_from_dict fd (JDict raw) path
     = Inl (SerializationError (''Expected list at '' @ path @ ''.values''))"
proof -
  have "expect_list (dict_get raw ''values'') p
      = Inl (SerializationError (''Expected list at '' @ p))" for p
    using assms(2) by (cases "dict_get raw ''values''") (auto simp: field_wrong_def)
  moreover have "dict_get raw ''values'' \<noteq> JNull"
    using assms(2) by (simp add: field_wrong_def field_absent_def)
  ultimately show ?thesis
    by (rule_tac page_header [OF assms(1), of fd path]) simp
qed

lemma page_values_absent:
  assumes "page_header_ok raw" "field_absent raw ''values''"
  shows "\<exists>sa mr il. Page_from_dict fd (JDict raw) path
     = Inr \<lparr>start_at = sa, max_results = mr, is_last = il, page_values = []\<rparr>"
proof -
  have "dict_get raw ''values'' = JNull"
    using assms(2) by (simp add: field_absent_def)
  then show ?thesis
    by (rule_tac page_header [OF assms(1), of fd path]) simp
qed

lemma page_element_malformed:
  assumes "page_header_ok raw" "dict_get raw ''values'' = JList items" "i < length items"
    and "\<forall>j<i. \<exists>v. fd (items ! j) (element_path path j) = Inr v"
    and "fd (items ! i) (element_path path i) = Inl e"
  shows "Page_from_dict fd (JDict raw) path = Inl e"
proof -
  have "from_dict_each fd path 0 items = Inl e"
    using from_dict_each_fail [of i items fd path 0 e] assms(3,4,5) by simp
  then show ?thesis
    using assms(2) by (rule_tac page_header [OF assms(1), of fd path]) simp
qed

lemma optional_int_if:
  "optional_field expect_int raw key p
     = (if field_wrong is_int_json raw key
        then Inl (SerializationError (''Expected integer at '' @ p @ ''.'' @ key))
        else Inr (case dict_get raw key of JInt i \<Rightarrow> Some i | _ \<Rightarrow> None))"
  by (cases "dict_get raw key") (simp_all add: optional_field_def field_wrong_def field_absent_def)

lemma optional_str_if:
  "optional_field expect_str raw key p
     = (if field_wrong is_str_json raw key
        then Inl (SerializationError (''Expected string at '' @ p @ ''.'' @ key))
        else Inr (case dict_get raw key of JStr s \<Rightarrow> Some s | _ \<Rightarrow> None))"
  by (cases "dict_get raw key") (simp_all add: optional_field_def field_wrong_def field_absent_def)

lemma Sprint_from_dict_malformed:
  "element_error sprint_fields obj p = Some m
   \<Longrightarrow> Sprint_from_dict obj p = Inl (SerializationError m)"
  by (cases obj)
    (auto simp: Sprint_from_dict_def optional_int_if optional_str_if sprint_fields_def
      split: if_splits)

lemma Sprint_from_dict_well_formed:
  "element_error sprint_fields obj p = None \<Longrightarrow> \<exists>v. Sprint_from_dict obj p = Inr v"
  by (cases obj)
    (auto simp: Sprint_from_dict_def optional_int_if optional_str_if sprint_fields_def
      split: if_splits)

lemma Board_from_dict_malformed:
  "element_error board_fields obj p = Some m
   \<Longrightarrow> Board_from_dict obj p = Inl (SerializationError m)"
  by (cases obj)
    (auto simp: Board_from_dict_def optional_int_if optional_str_if board_fields_def
      split: if_splits)

lemma Board_from_dict_well_formed:
  "element_error board_fields obj p = None \<Longrightarrow> \<exists>v. Board_from_dict obj p = Inr v"
  by (cases obj)
    (auto simp: Board_from_dict_def optional_int_if optional_str_if board_fields_def
      split: if_splits)

lemma from_dict_each_ok:
  assumes "\<forall>j<length items. \<exists>v. fd (items ! j) (element_path path (idx + j)) = Inr v"
  shows "\<exists>vs. from_dict_each fd path idx items = Inr vs \<and> length vs = length items"
  using assms
proof (induction items arbitrary: idx)
  case Nil
  then show ?case by simp
next
  case (Cons a items)
  from Cons.prems obtain v where v: "fd a (element_path path idx) = Inr v"
    by fastforce
  have "\<forall>j<length items. \<exists>v. fd (items ! j) (element_path path (Suc idx + j)) = Inr v"
  proof (intro allI impI)
    fix j assume "j < length items"
    then have "Suc j < length (a # items)" by simp
    with Cons.prems show "\<exists>v. fd (items ! j) (element_path path (Suc idx + j)) = Inr v"
      by fastforce
  qed
  from Cons.IH [OF this] obtain vs where
    "from_dict_each fd path (Suc idx) items = Inr vs \<and> length vs = length items" by blast
  with v show ?case by (simp add: element_path_def)
qed

lemma page_elements_ok:
  assumes "page_header_ok raw" "dict_get raw ''values'' = JList items"
    and "\<forall>j<length items. \<exists>v. fd (items ! j) (element_path path j) = Inr v"
  shows "\<exists>page. Page_from_dict fd (JDict raw) path = Inr page
     \<and> length (page_values page) = length items"
proof -
  obtain vs where "from_dict_each fd path 0 items = Inr vs \<and> length vs = length items"
    using from_dict_each_ok [of items fd path 0] assms(3) by auto
  then show ?thesis
    using assms(2) by (rule_tac page_header [OF assms(1), of fd path]) simp
qed

lemma sprints_loop_empty_page:
  assumes "start \<notin> seen" "0 < page_size"
    and "get_json k (sprints_path board) (sprints_params start page_size sc) = Inr payload"
    and "SprintPage_from_dict payload ''data'' = Inr page" "page_values page = []"
  shows "sprints_loop (Suc n) get_json board sc page_size start seen k acc
     = \<lparr>yielded = acc, ended = Some Done, fetches = Suc k\<rparr>"
  using assms by (simp add: Let_def)

lemma boards_loop_empty_page:
  assumes "start \<notin> seen" "0 < page_size"
    and "get_json k ''/rest/agile/1.0/board'' (boards_params start page_size) = Inr payload"
    and "BoardPage_from_dict payload ''data'' = Inr page" "page_values page = []"
  shows "boards_loop (Suc n) get_json page_size start seen k acc
     = \<lparr>yielded = acc, ended = Some Done, fetches = Suc k\<rparr>"
  using assms by (simp add: Let_def)

text \<open>
  Claim C10.  \<^verbatim>\<open>SprintPage.from_dict\<close> and \<^verbatim>\<open>BoardPage.from_dict\<close> on an object whose
  \<^verbatim>\<open>startAt\<close>, \<^verbatim>\<open>maxResults\<close> and \<^verbatim>\<open>isLast\<close> are absent or well typed: when
  \<^verbatim>\<open>values\<close> is absent or null they return a page with no values, and an iterator that
  receives such a payload ends its run there without an error.  A present field of the
  wrong type raises a \<^verbatim>\<open>SerializationError\<close> that names its path; the fields are
  checked in the order \<^verbatim>\<open>startAt\<close>, \<^verbatim>\<open>maxResults\<close>, \<^verbatim>\<open>isLast\<close>, \<^verbatim>\<open>values\<close>, then
  the elements of \<^verbatim>\<open>values\<close> from the first on.  An element is malformed when it is not
  an object or when one of its declared fields is present with the wrong type; the first
  malformed element raises the \<^verbatim>\<open>SerializationError\<close> with the message
  \<open>element_error\<close>, which names the element's path or the path of its first offending
  field.  When no element is malformed the page is returned with one value for each
  element.
\<close>

theorem page_from_dict_missing_and_wrong_fields:
  "(page_header_ok raw \<and> field_absent raw ''values'' \<longrightarrow>
      (\<exists>sa mr il. SprintPage_from_dict (JDict raw) path
         = Inr \<lparr>start_at = sa, max_results = mr, is_last = il, page_values = []\<rparr>)
    \<and> (\<exists>sa mr il. BoardPage_from_dict (JDict raw) path
         = Inr \<lparr>start_at = sa, max_results = mr, is_last = il, page_values = []\<rparr>)
    \<and> (\<forall>n get_json board sc page_size start seen k acc.
          start \<notin> seen \<and> 0 < page_size
          \<and> get_json k (sprints_path board) (sprints_params start page_size sc) = Inr (JDict raw)
          \<longrightarrow> sprints_loop (Suc n) get_json board sc page_size start seen k acc
              = \<lparr>yielded = acc, ended = Some Done, fetches = Suc k\<rparr>)
    \<and> (\<forall>n get_json page_size start seen k acc.
          start \<notin> seen \<and> 0 < page_size
          \<and> get_json k ''/rest/agile/1.0/board'' (boards_params start page_size) = Inr (JDict raw)
          \<longrightarrow> boards_loop (Suc n) get_json page_size start seen k acc
              = \<lparr>yielded = acc, ended = Some Done, fetches = Suc k\<rparr>))
   \<and> (field_wrong is_int_json raw ''startAt'' \<longrightarrow>
      SprintPage_from_dict (JDict raw) path
        = Inl (SerializationError (''Expected integer at '' @ path @ ''.startAt''))
    \<and> BoardPage_from_dict (JDict raw) path
        = Inl (SerializationError (''Expected integer at '' @ path @ ''.startAt'')))
   \<and> (field_ok is_int_json raw ''startAt'' \<and> field_wrong is_int_json raw ''maxResults'' \<longrightarrow>
      SprintPage_from_dict (JDict raw) path
        = Inl (SerializationError (''Expected integer at '' @ path @ ''.maxResults''))
    \<and> BoardPage_from_dict (JDict raw) path
        = Inl (SerializationError (''Expected integer at '' @ path @ ''.maxResults'')))
   \<and> (field_ok is_int_json raw ''startAt'' \<and> field_ok is_int_json raw ''maxResults''
      \<and> field_wrong is_bool_json raw ''isLast'' \<longrightarrow>
      SprintPage_from_dict (JDict raw) path
        = Inl (SerializationError (''Expected boolean at '' @ path @ ''.isLast''))
    \<and> BoardPage_from_dict (JDict raw) path
        = Inl (SerializationError (''Expected boolean at '' @ path @ ''.isLast'')))
   \<and> (page_header_ok raw \<and> field_wrong is_list_json raw ''values'' \<longrightarrow>
      SprintPage_from_dict (JDict raw) path
        = Inl (SerializationError (''Expected list at '' @ path @ ''.values''))
    \<and> BoardPage_from_dict (JDict raw) path
        = Inl (SerializationError (''Expected list at '' @ path @ ''.values'')))
   \<and> (page_header_ok raw \<and> dict_get raw ''values'' = JList items \<and> i < length items
      \<and> (\<forall>j<i. element_error sprint_fields (items ! j) (element_path path j) = None)
      \<and> element_error sprint_fields (items ! i) (element_path path i) = Some m \<longrightarrow>
      SprintPage_from_dict (JDict raw) path = Inl (SerializationError m)
      \<and> names_path (SerializationError m) (element_path path i))
   \<and> (page_header_ok raw \<and> dict_get raw ''values'' = JList items \<and> i < length items
      \<and> (\<forall>j<i. element_error board_fields (items ! j) (element_path path j) = None)
      \<and> element_error board_fields (items ! i) (element_path path i) = Some m \<longrightarrow>
      BoardPage_from_dict (JDict raw) path = Inl (SerializationError m)
      \<and> names_path (SerializationError m) (element_path path i))
   \<and> (page_header_ok raw \<and> dict_get raw ''values'' = JList items
      \<and> (\<forall>j<length items. element_error sprint_fields (items ! j) (element_path path j) = None)
      \<longrightarrow> (\<exists>page. SprintPage_from_dict (JDict raw) path = Inr page
             \<and> length (page_values page) = length items))
   \<and> (page_header_ok raw \<and> dict_get raw ''values'' = JList items
      \<and> (\<forall>j<length items. element_error board_fields (items ! j) (element_path path j) = None)
      \<longrightarrow> (\<exists>page. BoardPage_from_dict (JDict raw) path = Inr page
             \<and> length (page_values page) = length items))"
proof -
  have a1: "\<exists>sa mr il. SprintPage_from_dict (JDict raw) p
         = Inr \<lparr>start_at = sa, max_results = mr, is_last = il, page_values = []\<rparr>"
    if "page_header_ok raw \<and> field_absent raw ''values''" for p
    using page_values_absent [of raw Sprint_from_dict p] that
    unfolding SprintPage_from_dict_def by blast
  have a2: "\<exists>sa mr il. BoardPage_from_dict (JDict raw) p
         = Inr \<lparr>start_at = sa, max_results = mr, is_last = il, page_values = []\<rparr>"
    if "page_header_ok raw \<and> field_absent raw ''values''" for p
    using page_values_absent [of raw Board_from_dict p] that
    unfolding BoardPage_from_dict_def by blast
  have a3: "sprints_loop (Suc n) get_json board sc page_size start seen k acc
              = \<lparr>yielded = acc, ended = Some Done, fetches = Suc k\<rparr>"
    if h: "page_header_ok raw \<and> field_absent raw ''values''"
      and r: "start \<notin> seen \<and> 0 < page_size
        \<and> get_json k (sprints_path board) (sprints_params start page_size sc) = Inr (JDict raw)"
    for n get_json board sc page_size start seen k acc
  proof -
    obtain sa mr il where s: "SprintPage_from_dict (JDict raw) ''data''
         = Inr \<lparr>start_at = sa, max_results = mr, is_last = il, page_values = []\<rparr>"
      using a1 [OF h] by blast
    show ?thesis
      using r sprints_loop_empty_page [of start seen page_size get_json k board sc "JDict raw", OF _ _ _ s]
      by simp
  qed
  have a4: "boards_loop (Suc n) get_json page_size start seen k acc
              = \<lparr>yielded = acc, ended = Some Done, fetches = Suc k\<rparr>"
    if h: "page_header_ok raw \<and> field_absent raw ''values''"
      and r: "start \<notin> seen \<and> 0 < page_size
        \<and> get_json k ''/rest/agile/1.0/board'' (boards_params start page_size) = Inr (JDict raw)"
    for n get_json page_size start seen k acc
  proof -
    obtain sa mr il where s: "BoardPage_from_dict (JDict raw) ''data''
         = Inr \<lparr>start_at = sa, max_results = mr, is_last = il, page_values = []\<rparr>"
      using a2 [OF h] by blast
    show ?thesis
      using r boards_loop_empty_page [of start seen page_size get_json k "JDict raw", OF _ _ _ s]
      by simp
  qed
  have sprint_el: "SprintPage_from_dict (JDict raw) path = Inl (SerializationError m)
        \<and> names_path (SerializationError m) (element_path path i)"
    if h: "page_header_ok raw \<and> dict_get raw ''values'' = JList items \<and> i < length items
      \<and> (\<forall>j<i. element_error sprint_fields (items ! j) (element_path path j) = None)
      \<and> element_error sprint_fields (items ! i) (element_path path i) = Some m"
  proof -
    have f: "Sprint_from_dict (items ! i) (element_path path i) = Inl (SerializationError m)"
      using h Sprint_from_dict_malformed by blast
    have g: "\<forall>j<i. \<exists>v. Sprint_from_dict (items ! j) (element_path path j) = Inr v"
      using h Sprint_from_dict_well_formed by blast
    have "Page_from_dict Sprint_from_dict (JDict raw) path = Inl (SerializationError m)"
      using page_element_malformed [of raw items i Sprint_from_dict path "SerializationError m"]
        h f g by blast
    then show ?thesis
      using Sprint_from_dict_Inl [OF f] by (simp add: SprintPage_from_dict_def)
  qed
  have board_el: "BoardPage_from_dict (JDict raw) path = Inl (SerializationError m)
        \<and> names_path (SerializationError m) (element_path path i)"
    if h: "page_header_ok raw \<and> dict_get raw ''values'' = JList items \<and> i < length items
      \<and> (\<forall>j<i. element_error board_fields (items ! j) (element_path path j) = None)
      \<and> element_error board_fields (items ! i) (element_path path i) = Some m"
  proof -
    have f: "Board_from_dict (items ! i) (element_path path i) = Inl (SerializationError m)"
      using h Board_from_dict_malformed by blast
    have g: "\<forall>j<i. \<exists>v. Board_from_dict (items ! j) (element_path path j) = Inr v"
      using h Board_from_dict_well_formed by blast
    have "Page_from_dict Board_from_dict (JDict raw) path = Inl (SerializationError m)"
      using page_element_malformed [of raw items i Board_from_dict path "SerializationError m"]
        h f g by blast
    then show ?thesis
      using Board_from_dict_Inl [OF f] by (simp add: BoardPage_from_dict_def)
  qed
  have sprint_ok: "\<exists>page. SprintPage_from_dict (JDict raw) path = Inr page
             \<and> length (page_values page) = length items"
    if h: "page_header_ok raw \<and> dict_get raw ''values'' = JList items
      \<and> (\<forall>j<length items. element_error sprint_fields (items ! j) (element_path path j) = None)"
  proof -
    have g: "\<forall>j<length items. \<exists>v. Sprint_from_dict (items ! j) (element_path path j) = Inr v"
      using h Sprint_from_dict_well_formed by blast
    show ?thesis
      using page_elements_ok [of raw items Sprint_from_dict path] h g
      by (simp add: SprintPage_from_dict_def)
  qed
  have board_ok: "\<exists>page. BoardPage_from_dict (JDict raw) path = Inr page
             \<and> length (page_values page) = length items"
    if h: "page_header_ok raw \<and> dict_get raw ''values'' = JList items
      \<and> (\<forall>j<length items. element_error board_fields (items ! j) (element_path path j) = None)"
  proof -
    have g: "\<forall>j<length items. \<exists>v. Board_from_dict (items ! j) (element_path path j) = Inr v"
      using h Board_from_dict_well_formed by blast
    show ?thesis
      using page_elements_ok [of raw items Board_from_dict path] h g
      by (simp add: BoardPage_from_dict_def)
  qed
  have el: "(page_header_ok raw \<and> dict_get raw ''values'' = JList items \<and> i < length items
      \<and> (\<forall>j<i. element_error sprint_fields (items ! j) (element_path path j) = None)
      \<and> element_error sprint_fields (items ! i) (element_path path i) = Some m \<longrightarrow>
      SprintPage_from_dict (JDict raw) path = Inl (SerializationError m)
      \<and> names_path (SerializationError m) (element_path path i))
   \<and> (page_header_ok raw \<and> dict_get raw ''values'' = JList items \<and> i < length items
      \<and> (\<forall>j<i. element_error board_fields (items ! j) (element_path path j) = None)
      \<and> element_error board_fields (items ! i) (element_path path i) = Some m \<longrightarrow>
      BoardPage_from_dict (JDict raw) path = Inl (SerializationError m)
      \<and> names_path (SerializationError m) (element_path path i))
   \<and> (page_header_ok raw \<and> dict_get raw ''values'' = JList items
      \<and> (\<forall>j<length items. element_error sprint_fields (items ! j) (element_path path j) = None)
      \<longrightarrow> (\<exists>page. SprintPage_from_dict (JDict raw) path = Inr page
             \<and> length (page_values page) = length items))
   \<and> (page_header_ok raw \<and> dict_get raw ''values'' = JList items
      \<and> (\<forall>j<length items. element_error board_fields (items ! j) (element_path path j) = None)
      \<longrightarrow> (\<exists>page. BoardPage_from_dict (JDict raw) path = Inr page
             \<and> length (page_values page) = length items))"
    using sprint_el board_el sprint_ok board_ok by blast
  have hd: "(page_header_ok raw \<and> field_absent raw ''values'' \<longrightarrow>
      (\<exists>sa mr il. SprintPage_from_dict (JDict raw) path
         = Inr \<lparr>start_at = sa, max_results = mr, is_last = il, page_values = []\<rparr>)
    \<and> (\<exists>sa mr il. BoardPage_from_dict (JDict raw) path
         = Inr \<lparr>start_at = sa, max_results = mr, is_last = il, page_values = []\<rparr>)
    \<and> (\<forall>n get_json board sc page_size start seen k acc.
          start \<notin> seen \<and> 0 < page_size
          \<and> get_json k (sprints_path board) (sprints_params start page_size sc) = Inr (JDict raw)
          \<longrightarrow> sprints_loop (Suc n) get_json board sc page_size start seen k acc
              = \<lparr>yielded = acc, ended = Some Done, fetches = Suc k\<rparr>)
    \<and> (\<forall>n get_json page_size start seen k acc.
          start \<notin> seen \<and> 0 < page_size
          \<and> get_json k ''/rest/agile/1.0/board'' (boards_params start page_size) = Inr (JDict raw)
          \<longrightarrow> boards_loop (Suc n) get_json page_size start seen k acc
              = \<lparr>yielded = acc, ended = Some Done, fetches = Suc k\<rparr>))
   \<and> (field_wrong is_int_json raw ''startAt'' \<longrightarrow>
      SprintPage_from_dict (JDict raw) path
        = Inl (SerializationError (''Expected integer at '' @ path @ ''.startAt''))
    \<and> BoardPage_from_dict (JDict raw) path
        = Inl (SerializationError (''Expected integer at '' @ path @ ''.startAt'')))
   \<and> (field_ok is_int_json raw ''startAt'' \<and> field_wrong is_int_json raw ''maxResults'' \<longrightarrow>
      SprintPage_from_dict (JDict raw) path
        = Inl (SerializationError (''Expected integer at '' @ path @ ''.maxResults''))
    \<and> BoardPage_from_dict (JDict raw) path
        = Inl (SerializationError (''Expected integer at '' @ path @ ''.maxResults'')))
   \<and> (field_ok is_int_json raw ''startAt'' \<and> field_ok is_int_json raw ''maxResults''
      \<and> field_wrong is_bool_json raw ''isLast'' \<longrightarrow>
      SprintPage_from_dict (JDict raw) path
        = Inl (SerializationError (''Expected boolean at '' @ path @ ''.isLast''))
    \<and> BoardPage_from_dict (JDict raw) path
        = Inl (SerializationError (''Expected boolean at '' @ path @ ''.isLast'')))
   \<and> (page_header_ok raw \<and> field_wrong is_list_json raw ''values'' \<longrightarrow>
      SprintPage_from_dict (JDict raw) path
        = Inl (SerializationError (''Expected list at '' @ path @ ''.values''))
    \<and> BoardPage_from_dict (JDict raw) path
        = Inl (SerializationError (''Expected list at '' @ path @ ''.values'')))"
    apply (intro conjI impI allI)
    subgoal by (rule a1)
    subgoal by (rule a2)
    subgoal by (rule a3)
    subgoal by (rule a4)
    subgoal by (simp add: SprintPage_from_dict_def page_startAt_wrong)
    subgoal by (simp add: BoardPage_from_dict_def page_startAt_wrong)
    subgoal by (simp add: SprintPage_from_dict_def page_maxResults_wrong)
    subgoal by (simp add: BoardPage_from_dict_def page_maxResults_wrong)
    subgoal by (simp add: SprintPage_from_dict_def page_isLast_wrong)
    subgoal by (simp add: BoardPage_from_dict_def page_isLast_wrong)
    subgoal by (simp add: SprintPage_from_dict_def page_values_wrong)
    subgoal by (simp add: BoardPage_from_dict_def page_values_wrong)
    done
  show ?thesis
    using hd el by (elim conjE, intro conjI) assumption+
qed

theorem page_from_dict_missing_and_wrong_fields_witness:
  "SprintPage_from_dict (JDict [(''isLast'', JBool False)]) ''data''
     = Inr \<lparr>start_at = None, max_results = None, is_last = Some False, page_values = []\<rparr>
   \<and> BoardPage_from_dict (JDict [(''isLast'', JBool False)]) ''data''
     = Inr \<lparr>start_at = None, max_results = None, is_last = Some False, page_values = []\<rparr>
   \<and> SprintPage_from_dict (JDict [(''startAt'', JBool True)]) ''data''
     = Inl (SerializationError ''Expected integer at data.startAt'')
   \<and> BoardPage_from_dict (JDict [(''startAt'', JBool True)]) ''data''
     = Inl (SerializationError ''Expected integer at data.startAt'')
   \<and> SprintPage_from_dict (JDict [(''values'', JList [JDict [], JInt 3])]) ''data''
     = Inl (SerializationError ''Expected object at data.values[1]'')
   \<and> SprintPage_from_dict
       (JDict [(''values'', JList [JDict [(''id'', JInt 7)], JDict [(''name'', JInt 3)]])]) ''data''
     = Inl (SerializationError ''Expected string at data.values[1].name'')
   \<and> BoardPage_from_dict
       (JDict [(''values'', JList [JDict [(''id'', JInt 7)], JDict [(''id'', JStr ''x'')]])]) ''data''
     = Inl (SerializationError ''Expected integer at data.values[1].id'')"
proof -
  have p1: "element_path ''data'' (Suc 0) = ''data.values[1]''" by code_simp
  have h1: "page_header_ok [(''isLast'', JBool False)]
      \<and> field_absent [(''isLast'', JBool False)] ''values''"
    by (simp add: page_header_ok_def field_ok_def field_absent_def dict_get_def)
  have h2: "field_wrong is_int_json [(''startAt'', JBool True)] ''startAt''"
    by (simp add: field_wrong_def field_absent_def dict_get_def)
  have h3: "page_header_ok [(''values'', JList [JDict [], JInt 3])]
      \<and> dict_get [(''values'', JList [JDict [], JInt 3])] ''values'' = JList [JDict [], JInt 3]
      \<and> 1 < length [JDict [], JInt 3]
      \<and> (\<forall>j<1. element_error sprint_fields ([JDict [], JInt 3] ! j) (element_path ''data'' j)
            = None)
      \<and> element_error sprint_fields ([JDict [], JInt 3] ! 1) (element_path ''data'' 1)
          = Some ''Expected object at data.values[1]''"
    by (simp add: page_header_ok_def field_ok_def field_absent_def field_wrong_def dict_get_def
        sprint_fields_def p1)
  have h4: "page_header_ok [(''values'', JList [JDict [(''id'', JInt 7)], JDict [(''name'', JInt 3)]])]
      \<and> dict_get [(''values'', JList [JDict [(''id'', JInt 7)], JDict [(''name'', JInt 3)]])]
            ''values'' = JList [JDict [(''id'', JInt 7)], JDict [(''name'', JInt 3)]]
      \<and> 1 < length [JDict [(''id'', JInt 7)], JDict [(''name'', JInt 3)]]
      \<and> (\<forall>j<1. element_error sprint_fields
            ([JDict [(''id'', JInt 7)], JDict [(''name'', JInt 3)]] ! j) (element_path ''data'' j)
            = None)
      \<and> element_error sprint_fields
            ([JDict [(''id'', JInt 7)], JDict [(''name'', JInt 3)]] ! 1) (element_path ''data'' 1)
          = Some ''Expected string at data.values[1].name''"
    by (simp add: page_header_ok_def field_ok_def field_absent_def field_wrong_def dict_get_def
        sprint_fields_def p1)
  have h5: "page_header_ok [(''values'', JList [JDict [(''id'', JInt 7)], JDict [(''id'', JStr ''x'')]])]
      \<and> dict_get [(''values'', JList [JDict [(''id'', JInt 7)], JDict [(''id'', JStr ''x'')]])]
            ''values'' = JList [JDict [(''id'', JInt 7)], JDict [(''id'', JStr ''x'')]]
      \<and> 1 < length [JDict [(''id'', JInt 7)], JDict [(''id'', JStr ''x'')]]
      \<and> (\<forall>j<1. element_error board_fields
            ([JDict [(''id'', JInt 7)], JDict [(''id'', JStr ''x'')]] ! j) (element_path ''data'' j)
            = None)
      \<and> element_error board_fields
            ([JDict [(''id'', JInt 7)], JDict [(''id'', JStr ''x'')]] ! 1) (element_path ''data'' 1)
          = Some ''Expected integer at data.values[1].id''"
    by (simp add: page_header_ok_def field_ok_def field_absent_def field_wrong_def dict_get_def
        board_fields_def p1)
  note t1 = page_from_dict_missing_and_wrong_fields
    [of "[(''isLast'', JBool False)]" "''data''" "[]" 0]
  note t2 = page_from_dict_missing_and_wrong_fields
    [of "[(''startAt'', JBool True)]" "''data''" "[]" 0]
  note t3 = page_from_dict_missing_and_wrong_fields
    [of "[(''values'', JList [JDict [], JInt 3])]" "''data''" "[JDict [], JInt 3]" 1
      "''Expected object at data.values[1]''"]
  note t4 = page_from_dict_missing_and_wrong_fields
    [of "[(''values'', JList [JDict [(''id'', JInt 7)], JDict [(''name'', JInt 3)]])]" "''data''"
      "[JDict [(''id'', JInt 7)], JDict [(''name'', JInt 3)]]" 1
      "''Expected string at data.values[1].name''"]
  note t5 = page_from_dict_missing_and_wrong_fields
    [of "[(''values'', JList [JDict [(''id'', JInt 7)], JDict [(''id'', JStr ''x'')]])]" "''data''"
      "[JDict [(''id'', JInt 7)], JDict [(''id'', JStr ''x'')]]" 1
      "''Expected integer at data.values[1].id''"]
  have c1: "(\<exists>sa mr il. SprintPage_from_dict (JDict [(''isLast'', JBool False)]) ''data''
         = Inr \<lparr>start_at = sa, max_results = mr, is_last = il, page_values = []\<rparr>)
      \<and> (\<exists>sa mr il. BoardPage_from_dict (JDict [(''isLast'', JBool False)]) ''data''
         = Inr \<lparr>start_at = sa, max_results = mr, is_last = il, page_values = []\<rparr>)"
    using t1 [THEN conjunct1, THEN mp, OF h1] by blast
  have c2: "SprintPage_from_dict (JDict [(''startAt'', JBool True)]) ''data''
        = Inl (SerializationError (''Expected integer at '' @ ''data'' @ ''.startAt''))
      \<and> BoardPage_from_dict (JDict [(''startAt'', JBool True)]) ''data''
        = Inl (SerializationError (''Expected integer at '' @ ''data'' @ ''.startAt''))"
    using t2 [THEN conjunct2, THEN conjunct1, THEN mp, OF h2] .
  have c3: "SprintPage_from_dict (JDict [(''values'', JList [JDict [], JInt 3])]) ''data''
        = Inl (SerializationError ''Expected object at data.values[1]'')"
    using t3 [THEN conjunct2, THEN conjunct2, THEN conjunct2, THEN conjunct2, THEN conjunct2,
        THEN conjunct1, THEN mp, OF h3] by (rule conjunct1)
  have c4: "SprintPage_from_dict
       (JDict [(''values'', JList [JDict [(''id'', JInt 7)], JDict [(''name'', JInt 3)]])]) ''data''
     = Inl (SerializationError ''Expected string at data.values[1].name'')"
    using t4 [THEN conjunct2, THEN conjunct2, THEN conjunct2, THEN conjunct2, THEN conjunct2,
        THEN conjunct1, THEN mp, OF h4] by (rule conjunct1)
  have c5: "BoardPage_from_dict
       (JDict [(''values'', JList [JDict [(''id'', JInt 7)], JDict [(''id'', JStr ''x'')]])]) ''data''
     = Inl (SerializationError ''Expected integer at data.values[1].id'')"
    using t5 [THEN conjunct2, THEN conjunct2, THEN conjunct2, THEN conjunct2, THEN conjunct2,
        THEN conjunct2, THEN conjunct1, THEN mp, OF h5] by (rule conjunct1)
  have d1: "SprintPage_from_dict (JDict [(''isLast'', JBool False)]) ''data''
     = Inr \<lparr>start_at = None, max_results = None, is_last = Some False, page_values = []\<rparr>"
    using c1
    by (simp add: SprintPage_from_dict_def Page_from_dict_def optional_field_def dict_get_def)
  have d2: "BoardPage_from_dict (JDict [(''isLast'', JBool False)]) ''data''
     = Inr \<lparr>start_at = None, max_results = None, is_last = Some False, page_values = []\<rparr>"
    using c1
    by (simp add: BoardPage_from_dict_def Page_from_dict_def optional_field_def dict_get_def)
  show ?thesis
    using d1 d2 c2 c3 c4 c5 by simp
qed

text \<open>
  Claim C2.  A first page with no values and \<^verbatim>\<open>isLast = false\<close>, requested with a page
  size of 50: both iterators end the run normally after that one fetch.  In
  \<^verbatim>\<open>iter_board_sprints_via_rest\<close> the test \<^verbatim>\<open>len(values) < page_size\<close> comes before the
  test for an empty page, so the \<^verbatim>\<open>SerializationError\<close> written for this case is never
  reached; \<^verbatim>\<open>iter_boards_via_rest\<close> has no such branch.
\<close>

theorem empty_page_not_last_ends_silently:
  "iter_board_sprints_via_rest 1 sample_empty_page_server 10 None 50
     = \<lparr>yielded = [], ended = Some Done, fetches = 1\<rparr>
   \<and> iter_boards_via_rest 1 sample_empty_page_server 50
     = \<lparr>yielded = [], ended = Some Done, fetches = 1\<rparr>"
proof -
  have p: "Page_from_dict fd (JDict [(''isLast'', JBool False), (''values'', JList [])]) ''data''
     = Inr \<lparr>start_at = None, max_results = None, is_last = Some False, page_values = []\<rparr>"
    for fd :: "json \<Rightarrow> string \<Rightarrow> error + 'a"
    by (simp add: Page_from_dict_def optional_field_def dict_get_def)
  show ?thesis
    by (simp add: iter_board_sprints_via_rest_def iter_boards_via_rest_def
        sample_empty_page_server_def SprintPage_from_dict_def BoardPage_from_dict_def p)
qed

section \<open>Properties of the pagination loops\<close>



lemma sprints_loop_repeated:
  "start \<in> seen \<Longrightarrow> sprints_loop (Suc n) get_json board sc ps start seen k acc
     = \<lparr>yielded = acc, ended = Some (Failed (SerializationError
          ''Pagination startAt repeated; aborting to prevent infinite loop'')), fetches = k\<rparr>"
  by simp

lemma boards_loop_repeated:
  "start \<in> seen \<Longrightarrow> boards_loop (Suc n) get_json ps start seen k acc
     = \<lparr>yielded = acc, ended = Some (Failed (SerializationError
          ''Pagination startAt repeated; aborting to prevent infinite loop'')), fetches = k\<rparr>"
  by simp

lemma yield_each_None:
  "yield_each f xs = (ys, None) \<Longrightarrow> length ys = length xs \<and> map Inr ys = map f xs"
proof (induction xs arbitrary: ys)
  case Nil
  then show ?case by simp
next
  case (Cons x xs)
  then show ?case
    by (auto split: sum.splits prod.splits)
qed

lemma strip_samples [simp]:
  "strip ''A-1'' = ''A-1''" "strip ''w'' = ''w''" "strip ''c'' = ''c''" "strip ''u'' = ''u''"
  "strip ''s'' = ''s''" "strip ''S'' = ''S''" "strip ''active'' = ''active''"
  "strip ''cloud-123'' = ''cloud-123''"
  by (simp_all add: strip_def is_space_def)

lemma sample_edge_parsed:
  "JiraWorklogEdge_from_dict False (sample_edge_json i) p = Inr (sample_edge i)"
  by (simp add: JiraWorklogEdge_from_dict_def sample_edge_json_def sample_edge_def
      JiraWorklogNode_from_dict_def JiraEstimate_from_dict_def dict_get_def Let_def)

lemma sample_edges_parsed:
  "edges_from_dict False p idx (map sample_edge_json ids) = Inr (map sample_edge ids)"
  by (induction ids arbitrary: idx) (simp_all add: sample_edge_parsed)

lemma sample_result_parsed_cursor:
  "parse_or_operation_error (parse_issue_worklogs_page True False)
     (sample_worklogs_result hn (JStr c) ids)
   = Inr \<lparr>page_info = \<lparr>has_next_page = hn, end_cursor = Some c\<rparr>,
           edges = map sample_edge ids\<rparr>"
  by (simp add: parse_or_operation_error_def sample_worklogs_result_def
      parse_issue_worklogs_page_def JiraWorklogConnection_from_dict_def PageInfo_from_dict_def
      optional_field_def dict_get_def Let_def sample_edges_parsed)

lemma sample_result_parsed_null:
  "parse_or_operation_error (parse_issue_worklogs_page True False)
     (sample_worklogs_result hn JNull ids)
   = Inr \<lparr>page_info = \<lparr>has_next_page = hn, end_cursor = None\<rparr>,
           edges = map sample_edge ids\<rparr>"
  by (simp add: parse_or_operation_error_def sample_worklogs_result_def
      parse_issue_worklogs_page_def JiraWorklogConnection_from_dict_def PageInfo_from_dict_def
      optional_field_def dict_get_def Let_def sample_edges_parsed)

lemma sample_worklog_mapped:
  "map_worklog ''A-1'' (node (sample_edge i)) = Inr (sample_worklog i)"
  by (simp add: map_worklog_def sample_edge_def sample_worklog_def require_non_empty_def
      map_user_def Let_def)

lemma sample_worklogs_yielded:
  "yield_each (\<lambda>edge. map_worklog ''A-1'' (node edge)) (map sample_edge ids)
     = (map sample_worklog ids, None)"
  by (induction ids) (simp_all add: sample_worklog_mapped)

lemma sample_sprint_parsed:
  "Sprint_from_dict (sample_sprint_json i) p = Inr (sample_parsed_sprint i)"
  by (simp add: Sprint_from_dict_def sample_sprint_json_def sample_parsed_sprint_def
      optional_field_def dict_get_def)

lemma sample_sprints_parsed:
  "from_dict_each Sprint_from_dict p idx (map sample_sprint_json ids)
     = Inr (map sample_parsed_sprint ids)"
  by (induction ids arbitrary: idx) (simp_all add: sample_sprint_parsed)

lemma sample_payload_parsed:
  "SprintPage_from_dict (sample_sprints_payload l ids) ''data''
     = Inr \<lparr>start_at = None, max_results = None, is_last = Some l,
            page_values = map sample_parsed_sprint ids\<rparr>"
  by (simp add: SprintPage_from_dict_def Page_from_dict_def sample_sprints_payload_def
      optional_field_def dict_get_def sample_sprints_parsed)

lemma sample_sprint_mapped:
  "map_sprint (sample_parsed_sprint i) = Inr (sample_sprint i)"
  by (simp add: map_sprint_def sample_parsed_sprint_def sample_sprint_def stripped_or_none_def)

lemma sample_sprints_yielded:
  "yield_each map_sprint (map sample_parsed_sprint ids) = (map sample_sprint ids, None)"
  by (induction ids) (simp_all add: sample_sprint_mapped)








lemma worklogs_loop_continue:
  assumes "fetch_worklogs_page phc ehc execute k cloud key ps after = Inr conn"
    and "yield_each (\<lambda>edge. map_worklog key (node edge)) (edges conn) = (ys, None)"
    and "conn_next_after phc ehc key conn = Inr (Some c)" and "c \<notin> seen"
  shows "worklogs_loop (Suc n) phc ehc execute cloud key ps after seen k acc
     = worklogs_loop n phc ehc execute cloud key ps (Some c) (insert c seen) (Suc k) (acc @ ys)"
  using assms by simp

lemma worklogs_loop_done:
  assumes "fetch_worklogs_page phc ehc execute k cloud key ps after = Inr conn"
    and "yield_each (\<lambda>edge. map_worklog key (node edge)) (edges conn) = (ys, None)"
    and "\<not> has_next_page (page_info conn)"
  shows "worklogs_loop (Suc n) phc ehc execute cloud key ps after seen k acc
     = \<lparr>yielded = acc @ ys, ended = Some Done, fetches = Suc k\<rparr>"
  using assms by (simp add: conn_next_after_def next_after_from_pageinfo_def)

lemma sprints_loop_continue:
  assumes "start \<notin> seen"
    and "get_json k (sprints_path board) (sprints_params start ps sc) = Inr payload"
    and "SprintPage_from_dict payload ''data'' = Inr page"
    and "yield_each map_sprint (page_values page) = (ys, None)"
    and "is_last page \<noteq> Some True" and "ps \<le> int (length (page_values page))" and "0 < ps"
  shows "sprints_loop (Suc n) get_json board sc ps start seen k acc
     = sprints_loop n get_json board sc ps (start + int (length (page_values page)))
         (insert start seen) (Suc k) (acc @ ys)"
proof -
  have "page_values page \<noteq> []" using assms(6,7) by auto
  then show ?thesis using assms by (simp add: Let_def)
qed

lemma sprints_loop_last:
  assumes "start \<notin> seen"
    and "get_json k (sprints_path board) (sprints_params start ps sc) = Inr payload"
    and "SprintPage_from_dict payload ''data'' = Inr page"
    and "yield_each map_sprint (page_values page) = (ys, None)"
    and "is_last page = Some True"
  shows "sprints_loop (Suc n) get_json board sc ps start seen k acc
     = \<lparr>yielded = acc @ ys, ended = Some Done, fetches = Suc k\<rparr>"
  using assms by (simp add: Let_def)

text \<open>
  Claim C8.  Three pages of 50, 50 and 7 items with the has-more signal true, true and
  false (\<^verbatim>\<open>hasNextPage\<close> for the GraphQL connection, with two distinct cursors;
  \<^verbatim>\<open>isLast\<close> false, false, true for the REST pages, requested with a page size of 50):
  the iterator yields the 107 mapped items in the order of the pages, makes three fetches
  and ends normally.
\<close>

theorem three_pages_yield_107_items:
  assumes cloud: "strip cloud_id \<noteq> []"
    and key: "strip issue_key \<noteq> []"
    and ps: "0 < page_size"
    and f1: "fetch_worklogs_page phc ehc execute 0 (strip cloud_id) (strip issue_key) page_size
           None = Inr conn_a"
    and f2: "fetch_worklogs_page phc ehc execute 1 (strip cloud_id) (strip issue_key) page_size
           (Some cursor_a) = Inr conn_b"
    and f3: "fetch_worklogs_page phc ehc execute 2 (strip cloud_id) (strip issue_key) page_size
           (Some cursor_b) = Inr conn_c"
    and l1: "length (edges conn_a) = 50"
    and l2: "length (edges conn_b) = 50"
    and l3: "length (edges conn_c) = 7"
    and h1: "has_next_page (page_info conn_a)"
    and h2: "has_next_page (page_info conn_b)"
    and h3: "\<not> has_next_page (page_info conn_c)"
    and n1: "conn_next_after phc ehc (strip issue_key) conn_a = Inr (Some cursor_a)"
    and n2: "conn_next_after phc ehc (strip issue_key) conn_b = Inr (Some cursor_b)"
    and ne: "cursor_a \<noteq> cursor_b"
    and y1: "yield_each (\<lambda>edge. map_worklog (strip issue_key) (node edge)) (edges conn_a) = (ws_a, None)"
    and y2: "yield_each (\<lambda>edge. map_worklog (strip issue_key) (node edge)) (edges conn_b) = (ws_b, None)"
    and y3: "yield_each (\<lambda>edge. map_worklog (strip issue_key) (node edge)) (edges conn_c) = (ws_c, None)"
    and board: "0 < board"
    and g1: "get_json 0 (sprints_path board) (sprints_params 0 50 None) = Inr payload_a"
    and g2: "get_json 1 (sprints_path board) (sprints_params 50 50 None) = Inr payload_b"
    and g3: "get_json 2 (sprints_path board) (sprints_params 100 50 None) = Inr payload_c"
    and p1: "SprintPage_from_dict payload_a ''data'' = Inr page_a"
    and p2: "SprintPage_from_dict payload_b ''data'' = Inr page_b"
    and p3: "SprintPage_from_dict payload_c ''data'' = Inr page_c"
    and m1: "length (page_values page_a) = 50"
    and m2: "length (page_values page_b) = 50"
    and m3: "length (page_values page_c) = 7"
    and i1: "is_last page_a = Some False"
    and i2: "is_last page_b = Some False"
    and i3: "is_last page_c = Some True"
    and s1: "yield_each map_sprint (page_values page_a) = (ss_a, None)"
    and s2: "yield_each map_sprint (page_values page_b) = (ss_b, None)"
    and s3: "yield_each map_sprint (page_values page_c) = (ss_c, None)"
  shows "iter_issue_worklogs_via_graphql (3 + n) phc ehc execute cloud_id issue_key page_size
       = \<lparr>yielded = ws_a @ ws_b @ ws_c, ended = Some Done, fetches = 3\<rparr>
     \<and> length (ws_a @ ws_b @ ws_c) = 107
     \<and> map Inr (ws_a @ ws_b @ ws_c)
         = map (\<lambda>edge. map_worklog (strip issue_key) (node edge))
             (edges conn_a @ edges conn_b @ edges conn_c)
     \<and> iter_board_sprints_via_rest (3 + n) get_json board None 50
       = \<lparr>yielded = ss_a @ ss_b @ ss_c, ended = Some Done, fetches = 3\<rparr>
     \<and> length (ss_a @ ss_b @ ss_c) = 107
     \<and> map Inr (ss_a @ ss_b @ ss_c)
         = map map_sprint (page_values page_a @ page_values page_b @ page_values page_c)"
proof -
  let ?key = "strip issue_key" and ?cloud = "strip cloud_id"
  have n3: "3 + n = Suc (Suc (Suc n))" by simp
  have "worklogs_loop (Suc (Suc (Suc n))) phc ehc execute ?cloud ?key page_size None {} 0 []
      = worklogs_loop (Suc (Suc n)) phc ehc execute ?cloud ?key page_size (Some cursor_a) {cursor_a} 1 ws_a"
    using worklogs_loop_continue [where execute = execute and k = 0 and after = None
        and conn = conn_a and ys = ws_a and c = cursor_a and seen = "{}" and n = "Suc (Suc n)"
        and acc = "[]" and phc = phc and ehc = ehc and cloud = "strip cloud_id"
        and key = "strip issue_key" and ps = page_size]
      f1 y1 n1
    by simp
  also have "\<dots> = worklogs_loop (Suc n) phc ehc execute ?cloud ?key page_size (Some cursor_b)
      {cursor_b, cursor_a} 2 (ws_a @ ws_b)"
    using worklogs_loop_continue [where execute = execute and k = 1 and after = "Some cursor_a"
        and conn = conn_b and ys = ws_b and c = cursor_b and seen = "{cursor_a}" and n = "Suc n"
        and acc = ws_a and phc = phc and ehc = ehc and cloud = "strip cloud_id"
        and key = "strip issue_key" and ps = page_size]
      f2 y2 n2 ne
    by (simp add: numeral_2_eq_2)
  also have "\<dots> = \<lparr>yielded = ws_a @ ws_b @ ws_c, ended = Some Done, fetches = 3\<rparr>"
    using worklogs_loop_done [where execute = execute and k = 2 and after = "Some cursor_b"
        and conn = conn_c and ys = ws_c and seen = "{cursor_b, cursor_a}" and n = n
        and acc = "ws_a @ ws_b" and phc = phc and ehc = ehc and cloud = "strip cloud_id"
        and key = "strip issue_key" and ps = page_size]
      f3 y3 h3
    by (simp add: numeral_3_eq_3 numeral_2_eq_2)
  finally have g: "iter_issue_worklogs_via_graphql (3 + n) phc ehc execute cloud_id issue_key
      page_size = \<lparr>yielded = ws_a @ ws_b @ ws_c, ended = Some Done, fetches = 3\<rparr>"
    using cloud key ps by (simp add: iter_issue_worklogs_via_graphql_def Let_def n3)
  note w1 = yield_each_None [OF y1] and w2 = yield_each_None [OF y2]
    and w3 = yield_each_None [OF y3]
  have gl: "length (ws_a @ ws_b @ ws_c) = 107"
    using w1 w2 w3 l1 l2 l3 by simp
  have gm: "map Inr (ws_a @ ws_b @ ws_c)
         = map (\<lambda>edge. map_worklog ?key (node edge)) (edges conn_a @ edges conn_b @ edges conn_c)"
    using w1 w2 w3 by simp
  have "sprints_loop (Suc (Suc (Suc n))) get_json board None 50 0 {} 0 []
      = sprints_loop (Suc (Suc n)) get_json board None 50 50 {0} 1 ss_a"
    using sprints_loop_continue [where start = 0 and seen = "{}" and get_json = get_json
        and k = 0 and board = board and ps = 50 and sc = None and payload = payload_a
        and page = page_a and ys = ss_a and n = "Suc (Suc n)" and acc = "[]"]
      g1 p1 s1 m1 i1
    by simp
  also have "\<dots> = sprints_loop (Suc n) get_json board None 50 100 {50, 0} 2 (ss_a @ ss_b)"
    using sprints_loop_continue [where start = 50 and seen = "{0}" and get_json = get_json
        and k = 1 and board = board and ps = 50 and sc = None and payload = payload_b
        and page = page_b and ys = ss_b and n = "Suc n" and acc = ss_a]
      g2 p2 s2 m2 i2
    by (simp add: numeral_2_eq_2)
  also have "\<dots> = \<lparr>yielded = ss_a @ ss_b @ ss_c, ended = Some Done, fetches = 3\<rparr>"
    using sprints_loop_last [where start = 100 and seen = "{50, 0}" and get_json = get_json
        and k = 2 and board = board and ps = 50 and sc = None and payload = payload_c
        and page = page_c and ys = ss_c and n = n and acc = "ss_a @ ss_b"]
      g3 p3 s3 i3
    by (simp add: numeral_3_eq_3 numeral_2_eq_2)
  finally have r: "iter_board_sprints_via_rest (3 + n) get_json board None 50
       = \<lparr>yielded = ss_a @ ss_b @ ss_c, ended = Some Done, fetches = 3\<rparr>"
    using board by (simp add: iter_board_sprints_via_rest_def n3)
  note t1 = yield_each_None [OF s1] and t2 = yield_each_None [OF s2]
    and t3 = yield_each_None [OF s3]
  have rl: "length (ss_a @ ss_b @ ss_c) = 107"
    using t1 t2 t3 m1 m2 m3 by simp
  have rm: "map Inr (ss_a @ ss_b @ ss_c)
         = map map_sprint (page_values page_a @ page_values page_b @ page_values page_c)"
    using t1 t2 t3 by simp
  show ?thesis using g gl gm r rl rm by blast
qed

lemma sample_worklogs_fetched:
  "fetch_worklogs_page True False sample_worklogs_server k cloud key ps None
     = Inr \<lparr>page_info = \<lparr>has_next_page = True, end_cursor = Some ''c1''\<rparr>,
            edges = map sample_edge [0..<50]\<rparr>"
  "fetch_worklogs_page True False sample_worklogs_server k cloud key ps (Some ''c1'')
     = Inr \<lparr>page_info = \<lparr>has_next_page = True, end_cursor = Some ''c2''\<rparr>,
            edges = map sample_edge [50..<100]\<rparr>"
  "fetch_worklogs_page True False sample_worklogs_server k cloud key ps (Some ''c2'')
     = Inr \<lparr>page_info = \<lparr>has_next_page = False, end_cursor = None\<rparr>,
            edges = map sample_edge [100..<107]\<rparr>"
  by (simp_all add: fetch_worklogs_page_def sample_worklogs_server_def worklogs_variables_def
      dict_get_def sample_result_parsed_cursor sample_result_parsed_null)

lemma sample_sprints_fetched:
  "sample_sprints_server k url (sprints_params 0 50 None) = Inr (sample_sprints_payload False [0..<50])"
  "sample_sprints_server k url (sprints_params 50 50 None)
     = Inr (sample_sprints_payload False [50..<100])"
  "sample_sprints_server k url (sprints_params 100 50 None)
     = Inr (sample_sprints_payload True [100..<107])"
  by (simp_all add: sample_sprints_server_def sprints_params_def dict_get_def)

theorem three_pages_yield_107_items_witness:
  "iter_issue_worklogs_via_graphql 3 True False sample_worklogs_server ''cloud-123'' ''A-1'' 50
     = \<lparr>yielded = map sample_worklog ([0..<50] @ [50..<100] @ [100..<107]),
        ended = Some Done, fetches = 3\<rparr>
   \<and> iter_board_sprints_via_rest 3 sample_sprints_server 10 None 50
     = \<lparr>yielded = map sample_sprint ([0..<50] @ [50..<100] @ [100..<107]),
        ended = Some Done, fetches = 3\<rparr>
   \<and> length (map sample_sprint ([0..<50] @ [50..<100] @ [100..<107])) = 107"
proof -
  let ?conn1 = "\<lparr>page_info = \<lparr>has_next_page = True, end_cursor = Some ''c1''\<rparr>,
            edges = map sample_edge [0..<50]\<rparr>"
  let ?conn2 = "\<lparr>page_info = \<lparr>has_next_page = True, end_cursor = Some ''c2''\<rparr>,
            edges = map sample_edge [50..<100]\<rparr>"
  let ?conn3 = "\<lparr>page_info = \<lparr>has_next_page = False, end_cursor = None\<rparr>,
            edges = map sample_edge [100..<107]\<rparr>"
  let ?page1 = "\<lparr>start_at = None, max_results = None, is_last = Some False,
            page_values = map sample_parsed_sprint [0..<50]\<rparr>"
  let ?page2 = "\<lparr>start_at = None, max_results = None, is_last = Some False,
            page_values = map sample_parsed_sprint [50..<100]\<rparr>"
  let ?page3 = "\<lparr>start_at = None, max_results = None, is_last = Some True,
            page_values = map sample_parsed_sprint [100..<107]\<rparr>"
  have "iter_issue_worklogs_via_graphql (3 + 0) True False sample_worklogs_server
         ''cloud-123'' ''A-1'' 50
       = \<lparr>yielded = map sample_worklog [0..<50] @ map sample_worklog [50..<100]
            @ map sample_worklog [100..<107], ended = Some Done, fetches = 3\<rparr>
     \<and> length (map sample_worklog [0..<50] @ map sample_worklog [50..<100]
            @ map sample_worklog [100..<107]) = 107
     \<and> map Inr (map sample_worklog [0..<50] @ map sample_worklog [50..<100]
            @ map sample_worklog [100..<107])
         = map (\<lambda>edge. map_worklog (strip ''A-1'') (node edge))
             (edges ?conn1 @ edges ?conn2 @ edges ?conn3)
     \<and> iter_board_sprints_via_rest (3 + 0) sample_sprints_server 10 None 50
       = \<lparr>yielded = map sample_sprint [0..<50] @ map sample_sprint [50..<100]
            @ map sample_sprint [100..<107], ended = Some Done, fetches = 3\<rparr>
     \<and> length (map sample_sprint [0..<50] @ map sample_sprint [50..<100]
            @ map sample_sprint [100..<107]) = 107
     \<and> map Inr (map sample_sprint [0..<50] @ map sample_sprint [50..<100]
            @ map sample_sprint [100..<107])
         = map map_sprint (page_values ?page1 @ page_values ?page2 @ page_values ?page3)"
  proof (rule three_pages_yield_107_items [where cursor_a = "''c1''" and cursor_b = "''c2''"
        and payload_a = "sample_sprints_payload False [0..<50]"
        and payload_b = "sample_sprints_payload False [50..<100]"
        and payload_c = "sample_sprints_payload True [100..<107]"])
  qed (simp_all add: sample_worklogs_fetched sample_sprints_fetched sample_payload_parsed
      sample_worklogs_yielded sample_sprints_yielded conn_next_after_def
      next_after_from_pageinfo_def sample_worklog_mapped sample_sprint_mapped)
  then show ?thesis by simp
qed

section \<open>Properties of the credentials, of single fetches and of the Retry-After header\<close>

text \<open>
  Claim C9, as stated, fails: with a refresh token, a client id and a client secret set,
  \<^verbatim>\<open>_auth_from_env\<close> returns the refresh-token authentication before it looks at the
  access token, also when the access token is the client secret.
\<close>

theorem token_equal_to_secret_accepted_with_refresh_token:
  "map_of [(''ATLASSIAN_OAUTH_ACCESS_TOKEN'', ''s3cr3t''), (''ATLASSIAN_CLIENT_SECRET'', ''s3cr3t''),
           (''ATLASSIAN_OAUTH_REFRESH_TOKEN'', ''r1''), (''ATLASSIAN_CLIENT_ID'', ''id1'')]
       ''ATLASSIAN_OAUTH_ACCESS_TOKEN''
   = map_of [(''ATLASSIAN_OAUTH_ACCESS_TOKEN'', ''s3cr3t''), (''ATLASSIAN_CLIENT_SECRET'', ''s3cr3t''),
           (''ATLASSIAN_OAUTH_REFRESH_TOKEN'', ''r1''), (''ATLASSIAN_CLIENT_ID'', ''id1'')]
       ''ATLASSIAN_CLIENT_SECRET''
   \<and> auth_from_env no_json
        (map_of [(''ATLASSIAN_OAUTH_ACCESS_TOKEN'', ''s3cr3t''), (''ATLASSIAN_CLIENT_SECRET'', ''s3cr3t''),
           (''ATLASSIAN_OAUTH_REFRESH_TOKEN'', ''r1''), (''ATLASSIAN_CLIENT_ID'', ''id1'')])
     = Inr (Some (OAuthRefreshTokenAuth ''id1'' ''s3cr3t'' ''r1''))"
  by (simp add: auth_from_env_def truthy_def value_of_def)

text \<open>
  Claim C9, amended.  When the refresh-token credentials are not all set (the refresh
  token or the client id is missing or empty) and the access token is not empty and
  identical to the client secret, \<^verbatim>\<open>_auth_from_env\<close> raises the \<^verbatim>\<open>ValueError\<close> and
  builds no authentication object.
\<close>

theorem token_equal_to_secret_rejected:
  assumes "getenv ''ATLASSIAN_OAUTH_ACCESS_TOKEN'' = Some t"
    and "getenv ''ATLASSIAN_CLIENT_SECRET'' = Some t"
    and "t \<noteq> []"
    and "\<not> (truthy (getenv ''ATLASSIAN_OAUTH_REFRESH_TOKEN'')
           \<and> truthy (getenv ''ATLASSIAN_CLIENT_ID''))"
  shows "auth_from_env json_loads getenv = Inl (ValueError
     (''ATLASSIAN_OAUTH_ACCESS_TOKEN appears to be set to ATLASSIAN_CLIENT_SECRET; ''
      @ ''set an OAuth access token (not the client secret).''))"
  using assms by (simp add: auth_from_env_def truthy_def value_of_def Let_def)

theorem token_equal_to_secret_rejected_witness:
  "auth_from_env no_json
     (map_of [(''ATLASSIAN_OAUTH_ACCESS_TOKEN'', ''s3cr3t''), (''ATLASSIAN_CLIENT_SECRET'', ''s3cr3t'')])
   = Inl (ValueError
     (''ATLASSIAN_OAUTH_ACCESS_TOKEN appears to be set to ATLASSIAN_CLIENT_SECRET; ''
      @ ''set an OAuth access token (not the client secret).''))"
  using token_equal_to_secret_rejected [of
      "map_of [(''ATLASSIAN_OAUTH_ACCESS_TOKEN'', ''s3cr3t''), (''ATLASSIAN_CLIENT_SECRET'', ''s3cr3t'')]"
      "''s3cr3t''" no_json]
  by (simp add: truthy_def value_of_def)

lemma strip_issue_samples [simp]:
  "strip ''A'' = ''A''" "strip ''Bug'' = ''Bug''" "strip ''Done'' = ''Done''"
  "strip ''u1'' = ''u1''" "strip ''u2'' = ''u2''" "strip ''User One'' = ''User One''"
  "strip ''User Two'' = ''User Two''"
  "strip ''2021-01-01T00:00:00Z'' = ''2021-01-01T00:00:00Z''"
  "strip ''2021-01-02T00:00:00Z'' = ''2021-01-02T00:00:00Z''"
  "strip ''2021-01-03T00:00:00Z'' = ''2021-01-03T00:00:00Z''"
  by (simp_all add: strip_def is_space_def)

lemma sample_issue_parsed:
  "parse_jira_issue_by_key sample_issue_data
     = Inr \<lparr>node_key = ''A-1'', issue_type = \<lparr>type_name = ''Bug''\<rparr>,
            issue_status = \<lparr>status_name = ''Done''\<rparr>,
            project_field = \<lparr>field_project =
              \<lparr>project_key = ''A'', project_cloud_id = ''cloud-123''\<rparr>\<rparr>,
            created_field = \<lparr>date_time = Some ''2021-01-01T00:00:00Z''\<rparr>,
            updated_field = \<lparr>date_time = Some ''2021-01-02T00:00:00Z''\<rparr>,
            resolution_date_field = Some \<lparr>date_time = Some ''2021-01-03T00:00:00Z''\<rparr>,
            assignee_field = Some \<lparr>picker_user =
              Some \<lparr>account_id = ''u1'', user_name = ''User One''\<rparr>\<rparr>,
            reporter = Some \<lparr>account_id = ''u2'', user_name = ''User Two''\<rparr>\<rparr>"
  by (simp add: parse_jira_issue_by_key_def sample_issue_data_def JiraIssueNode_from_dict_def
      JiraIssueType_from_dict_def JiraStatus_from_dict_def JiraProjectField_from_dict_def
      ApiProject_from_dict_def JiraDateTimePickerField_from_dict_def
      JiraSingleSelectUserPickerField_from_dict_def ApiUser_from_dict_def if_present_def
      dict_get_def Let_def)

lemma unit_test_issue_mapping:
  "get_issue_by_key sample_unit_test_server ''cloud-123'' ''A-1'' = Inr sample_issue"
  by (simp add: get_issue_by_key_def sample_unit_test_server_def response_result_def
      parse_or_operation_error_def sample_issue_parsed map_issue_def
      require_non_empty_def map_user_def sample_issue_def Let_def)




lemmas date_defs = read_digits_def is_digit_def make_datetime_def days_in_month_def
  days_before_year_def days_before_month_def is_leap_def iso_offset_def signed_offset_def
  datetime_fromisoformat_def split_words_def is_space_def month_number_def http_zone_def
  http_time_def email_parsedate_to_datetime_def upt_rec

lemma lower_Oct: "lower ''Oct'' = ''oct''"
  by code_simp

lemma fromisoformat_rfc3339_sample:
  "datetime_fromisoformat ''2025-10-21T07:28:00+00:00''
     = Some \<lparr>wall = 63896628480000000, utcoffset = Some 0\<rparr>"
  by (simp add: date_defs)

lemma fromisoformat_http_date_sample:
  "datetime_fromisoformat ''Wed, 21 Oct 2025 07:28:00 GMT'' = None"
  by (simp add: date_defs)

lemma parsedate_http_date_sample:
  "email_parsedate_to_datetime ''Wed, 21 Oct 2025 07:28:00 GMT''
     = Some \<lparr>wall = 63896628480000000, utcoffset = Some 0\<rparr>"
  by (simp add: date_defs lower_Oct)

lemma fromisoformat_epoch_and_max:
  "datetime_fromisoformat ''0001-01-01T00:00:00'' = Some \<lparr>wall = 0, utcoffset = None\<rparr>"
  "datetime_fromisoformat ''1970-01-01T00:00:00''
     = Some \<lparr>wall = 62135596800000000, utcoffset = None\<rparr>"
  "datetime_fromisoformat ''9999-12-31T23:59:59''
     = Some \<lparr>wall = 315537897599000000, utcoffset = None\<rparr>"
  "datetime_fromisoformat ''2025-02-29T00:00:00'' = None"
  by (simp_all add: date_defs)

text \<open>
  Claim C6.  \<^verbatim>\<open>parse_retry_after\<close> on a header that is not blank, for any two
  parsers in the place of the library's: when \<^verbatim>\<open>fromisoformat\<close> accepts the value (a
  final \<^verbatim>\<open>Z\<close> replaced by \<^verbatim>\<open>+00:00\<close>) the result is that datetime in UTC, labelled
  \<^verbatim>\<open>rfc3339\<close>; otherwise, when \<^verbatim>\<open>parsedate_to_datetime\<close> accepts the value, that
  datetime in UTC, labelled \<^verbatim>\<open>http-date\<close>; otherwise a \<^verbatim>\<open>ValueError\<close>.  With the
  two parsers of the library, which read the fields of the timestamp from the text, the
  header values \<^verbatim>\<open>2025-10-21T07:28:00Z\<close> and \<^verbatim>\<open>Wed, 21 Oct 2025 07:28:00 GMT\<close> both
  parse, the first as \<^verbatim>\<open>rfc3339\<close> and the second as \<^verbatim>\<open>http-date\<close>, to the same UTC
  datetime: 63896628480 seconds after 0001-01-01T00:00:00.
\<close>

theorem retry_after_rfc3339_then_http_date:
  "(strip h \<noteq> [] \<and> Option.bind (fromisoformat (if endswith_Z (strip h)
        then butlast (strip h) @ ''+00:00'' else strip h)) as_utc = Some u \<longrightarrow>
      parse_retry_after fromisoformat parsedate_to_datetime (Some h) = Inr (u, ''rfc3339''))
   \<and> (strip h \<noteq> [] \<and> Option.bind (fromisoformat (if endswith_Z (strip h)
        then butlast (strip h) @ ''+00:00'' else strip h)) as_utc = None
      \<and> Option.bind (parsedate_to_datetime (strip h)) as_utc = Some u \<longrightarrow>
      parse_retry_after fromisoformat parsedate_to_datetime (Some h) = Inr (u, ''http-date''))
   \<and> (strip h \<noteq> [] \<and> Option.bind (fromisoformat (if endswith_Z (strip h)
        then butlast (strip h) @ ''+00:00'' else strip h)) as_utc = None
      \<and> Option.bind (parsedate_to_datetime (strip h)) as_utc = None \<longrightarrow>
      parse_retry_after fromisoformat parsedate_to_datetime (Some h)
        = Inl (ValueError (''Unable to parse Retry-After header: '' @ strip h)))
   \<and> parse_retry_after datetime_fromisoformat email_parsedate_to_datetime
        (Some ''2025-10-21T07:28:00Z'')
      = Inr (\<lparr>wall = 63896628480000000, utcoffset = Some 0\<rparr>, ''rfc3339'')
   \<and> parse_retry_after datetime_fromisoformat email_parsedate_to_datetime
        (Some ''Wed, 21 Oct 2025 07:28:00 GMT'')
      = Inr (\<lparr>wall = 63896628480000000, utcoffset = Some 0\<rparr>, ''http-date'')"
proof -
  have s1: "strip ''2025-10-21T07:28:00Z'' = ''2025-10-21T07:28:00Z''"
    by (simp add: strip_def is_space_def)
  have s2: "strip ''Wed, 21 Oct 2025 07:28:00 GMT'' = ''Wed, 21 Oct 2025 07:28:00 GMT''"
    by (simp add: strip_def is_space_def)
  have u: "as_utc \<lparr>wall = 63896628480000000, utcoffset = Some 0\<rparr>
      = Some \<lparr>wall = 63896628480000000, utcoffset = Some 0\<rparr>"
    by (simp add: as_utc_def datetime_max_def)
  have gen: "(strip h \<noteq> [] \<and> Option.bind (fromisoformat (if endswith_Z (strip h)
        then butlast (strip h) @ ''+00:00'' else strip h)) as_utc = Some u \<longrightarrow>
      parse_retry_after fromisoformat parsedate_to_datetime (Some h) = Inr (u, ''rfc3339''))
   \<and> (strip h \<noteq> [] \<and> Option.bind (fromisoformat (if endswith_Z (strip h)
        then butlast (strip h) @ ''+00:00'' else strip h)) as_utc = None
      \<and> Option.bind (parsedate_to_datetime (strip h)) as_utc = Some u \<longrightarrow>
      parse_retry_after fromisoformat parsedate_to_datetime (Some h) = Inr (u, ''http-date''))
   \<and> (strip h \<noteq> [] \<and> Option.bind (fromisoformat (if endswith_Z (strip h)
        then butlast (strip h) @ ''+00:00'' else strip h)) as_utc = None
      \<and> Option.bind (parsedate_to_datetime (strip h)) as_utc = None \<longrightarrow>
      parse_retry_after fromisoformat parsedate_to_datetime (Some h)
        = Inl (ValueError (''Unable to parse Retry-After header: '' @ strip h)))"
    by (intro conjI impI)
      (auto simp: parse_retry_after_def Let_def split: if_splits)
  have a: "parse_retry_after datetime_fromisoformat email_parsedate_to_datetime
        (Some ''2025-10-21T07:28:00Z'')
      = Inr (\<lparr>wall = 63896628480000000, utcoffset = Some 0\<rparr>, ''rfc3339'')"
    by (simp add: parse_retry_after_def Let_def s1 endswith_Z_def
        fromisoformat_rfc3339_sample u)
  have b: "parse_retry_after datetime_fromisoformat email_parsedate_to_datetime
        (Some ''Wed, 21 Oct 2025 07:28:00 GMT'')
      = Inr (\<lparr>wall = 63896628480000000, utcoffset = Some 0\<rparr>, ''http-date'')"
    by (simp add: parse_retry_after_def Let_def s2 endswith_Z_def
        fromisoformat_http_date_sample parsedate_http_date_sample u)
  show ?thesis
    using gen a b by (elim conjE, intro conjI) assumption+
qed

theorem retry_after_rfc3339_then_http_date_witness:
  "parse_retry_after datetime_fromisoformat email_parsedate_to_datetime
       (Some ''2025-10-21T09:28:00+02:00'')
     = Inr (\<lparr>wall = 63896628480000000, utcoffset = Some 0\<rparr>, ''rfc3339'')
   \<and> parse_retry_after datetime_fromisoformat email_parsedate_to_datetime
       (Some ''Tue, 21 Oct 2025 03:28:00 -0400'')
     = Inr (\<lparr>wall = 63896628480000000, utcoffset = Some 0\<rparr>, ''http-date'')
   \<and> parse_retry_after datetime_fromisoformat email_parsedate_to_datetime (Some ''soon'')
     = Inl (ValueError ''Unable to parse Retry-After header: soon'')"
proof -
  let ?u = "\<lparr>wall = 63896628480000000, utcoffset = Some 0\<rparr>"
  have s1: "strip ''2025-10-21T09:28:00+02:00'' = ''2025-10-21T09:28:00+02:00''"
    by (simp add: strip_def is_space_def)
  have s2: "strip ''Tue, 21 Oct 2025 03:28:00 -0400'' = ''Tue, 21 Oct 2025 03:28:00 -0400''"
    by (simp add: strip_def is_space_def)
  have s3: "strip ''soon'' = ''soon''"
    by (simp add: strip_def is_space_def)
  have i1: "datetime_fromisoformat ''2025-10-21T09:28:00+02:00''
      = Some \<lparr>wall = 63896635680000000, utcoffset = Some 7200000000\<rparr>"
    by (simp add: date_defs)
  have i2: "datetime_fromisoformat ''Tue, 21 Oct 2025 03:28:00 -0400'' = None"
    by (simp add: date_defs)
  have i3: "email_parsedate_to_datetime ''Tue, 21 Oct 2025 03:28:00 -0400''
      = Some \<lparr>wall = 63896614080000000, utcoffset = Some (- 14400000000)\<rparr>"
    by (simp add: date_defs lower_Oct)
  have i4: "datetime_fromisoformat ''soon'' = None" "email_parsedate_to_datetime ''soon'' = None"
    by (simp_all add: date_defs)
  have a: "parse_retry_after datetime_fromisoformat email_parsedate_to_datetime
       (Some ''2025-10-21T09:28:00+02:00'') = Inr (?u, ''rfc3339'')"
    using retry_after_rfc3339_then_http_date [of "''2025-10-21T09:28:00+02:00''"
        datetime_fromisoformat ?u email_parsedate_to_datetime, THEN conjunct1]
    by (simp add: s1 endswith_Z_def i1 as_utc_def datetime_max_def)
  have b: "parse_retry_after datetime_fromisoformat email_parsedate_to_datetime
       (Some ''Tue, 21 Oct 2025 03:28:00 -0400'') = Inr (?u, ''http-date'')"
    using retry_after_rfc3339_then_http_date [of "''Tue, 21 Oct 2025 03:28:00 -0400''"
        datetime_fromisoformat ?u email_parsedate_to_datetime, THEN conjunct2, THEN conjunct1]
    by (simp add: s2 endswith_Z_def i2 i3 as_utc_def datetime_max_def)
  have c: "parse_retry_after datetime_fromisoformat email_parsedate_to_datetime (Some ''soon'')
     = Inl (ValueError ''Unable to parse Retry-After header: soon'')"
    using retry_after_rfc3339_then_http_date [of "''soon''"
        datetime_fromisoformat ?u email_parsedate_to_datetime,
        THEN conjunct2, THEN conjunct2, THEN conjunct1]
    by (simp add: s3 endswith_Z_def i4)
  show ?thesis using a b c by simp
qed

end
